theory Spec2Isabelle
  imports Complex_Main
begin

section \<open>Strings, paths and number formatting\<close>

text \<open>
  The scripts build file names and console messages with Python's \<^verbatim>\<open>str\<close>,
  the format specification \<^verbatim>\<open>:06d\<close> and \<^verbatim>\<open>os.path.join\<close>. Python integers are
  unbounded, so they are \<^typ>\<open>int\<close> here; strings are \<^typ>\<open>string\<close>.
\<close>

definition digit_char :: "nat \<Rightarrow> char" where
  "digit_char d = ''0123456789'' ! d"

function nat_digits :: "nat \<Rightarrow> string" where
  "nat_digits n = (if n < 10 then [digit_char n] else nat_digits (n div 10) @ [digit_char (n mod 10)])"
  by pat_completeness auto
termination
  by (relation "measure id") auto

declare nat_digits.simps [simp del]

text \<open>\<^verbatim>\<open>str(i)\<close> for an integer.\<close>

definition str_int :: "int \<Rightarrow> string" where
  "str_int i = (if i < 0 then CHR ''-'' # nat_digits (nat (- i)) else nat_digits (nat i))"

text \<open>
  \<^verbatim>\<open>f"{i:06d}"\<close>: the sign, when there is one, comes first and the zeros fill the
  field up to six characters in all; a longer number is not truncated.
\<close>

definition zero_fill :: "nat \<Rightarrow> string \<Rightarrow> string" where
  "zero_fill w s = replicate (w - length s) CHR ''0'' @ s"

definition format_06d :: "int \<Rightarrow> string" where
  "format_06d i =
     (if i < 0 then CHR ''-'' # zero_fill 5 (nat_digits (nat (- i)))
      else zero_fill 6 (nat_digits (nat i)))"

text \<open>\<^verbatim>\<open>os.path.join(a, b)\<close> on POSIX, for two components.\<close>

definition startswith :: "string \<Rightarrow> string \<Rightarrow> bool" where
  "startswith s p = (take (length p) s = p)"

definition endswith :: "string \<Rightarrow> string \<Rightarrow> bool" where
  "endswith s p = (length p \<le> length s \<and> drop (length s - length p) s = p)"

definition path_join :: "string \<Rightarrow> string \<Rightarrow> string" where
  "path_join a b =
     (if startswith b ''/'' then b
      else if a = [] \<or> endswith a ''/'' then a @ b
      else a @ ''/'' @ b)"

section \<open>Exceptions\<close>

datatype py_exn = OSError string | RuntimeError string | IndexError | UnicodeDecodeError

section \<open>The video assembler (\<^verbatim>\<open>src/utils/ffmpeg_video.py\<close>)\<close>

text \<open>
  The module's configuration is four module-level variables; two of them are
  reassigned by \<^verbatim>\<open>create_video_with_bitrate\<close>, so the configuration is a piece of
  state and not a constant.
\<close>

record ffmpeg_globals =
  SAVE_DIR :: string
  VIDEO_FILE :: string
  FPS :: int
  BITRATE :: string

definition initial_globals :: ffmpeg_globals where
  "initial_globals =
     \<lparr>SAVE_DIR = ''output_images'', VIDEO_FILE = ''carla_output.mp4'', FPS = 20, BITRATE = ''5M''\<rparr>"

text \<open>
  The file system as the scripts see it, through three library calls: which paths
  exist (\<^verbatim>\<open>os.path.exists\<close>), the paths that \<^verbatim>\<open>glob.glob\<close> returns for a
  pattern, and file sizes (\<^verbatim>\<open>os.path.getsize\<close>). \<^verbatim>\<open>glob.glob\<close> belongs to the
  standard library and reads the whole pattern, its directory part included; what it
  finds is part of the surroundings, not of the program.
\<close>

record filesystem =
  path_exists :: "string \<Rightarrow> bool"
  glob :: "string \<Rightarrow> string list"
  getsize :: "string \<Rightarrow> nat"

text \<open>
  The external encoder is outside the repository. What launching it can do is a
  parameter: the program is not installed, the launch fails for another reason, or
  the process runs, changes the file system and exits with a status and the bytes it
  wrote to its two output streams. \<^verbatim>\<open>subprocess.run\<close> is called with
  \<^verbatim>\<open>text=True\<close>, so it decodes both streams in the encoding of the locale before it
  looks at the status; \<open>decode\<close> is that decoding, \<^term>\<open>None\<close> for bytes that
  are not valid in the encoding.
\<close>

datatype proc_outcome =
    Exited int string string
  | NotInstalled
  | LaunchFailed string

record os_env =
  subprocess_run :: "string list \<Rightarrow> filesystem \<Rightarrow> proc_outcome \<times> filesystem"
  decode :: "string \<Rightarrow> string option"
  format_1f :: "real \<Rightarrow> string"

text \<open>
  Everything a script does to the world outside is recorded, in order, as a list of
  events: console lines, launches of the encoder, and (for the scripts that talk to
  the simulator) steps of the simulation, sleeps, settings sent to the server, replay
  requests, spawned and destroyed actors, and files written.
\<close>

type_synonym image = nat

type_synonym actor = nat

record settings =
  synchronous_mode :: bool
  fixed_delta_seconds :: "real option"

datatype event =
    Print string
  | Run "string list"
  | Tick
  | Sleep real
  | ApplySettings settings
  | ReplayFile string real real int
  | Spawn string
  | Listen actor
  | Stop actor
  | Destroy actor
  | SetAutopilot actor
  | MakeDirs string
  | SaveToDisk string image
  | FileOpen string
  | FileWrite string string

definition ffmpeg_cmd :: "ffmpeg_globals \<Rightarrow> string list" where
  "ffmpeg_cmd g =
     [''ffmpeg'', ''-y'',
      ''-framerate'', str_int (FPS g),
      ''-i'', path_join (SAVE_DIR g) ''frame_%06d.jpg'',
      ''-b:v'', BITRATE g,
      ''-r'', str_int (FPS g),
      VIDEO_FILE g]"

text \<open>The three non-ASCII marks of the messages, as their UTF-8 bytes.\<close>

definition check_mark :: string where
  "check_mark = [CHR 0xE2, CHR 0x9C, CHR 0x85]"

definition cross_mark :: string where
  "cross_mark = [CHR 0xE2, CHR 0x9D, CHR 0x8C]"

definition folder_mark :: string where
  "folder_mark = [CHR 0xF0, CHR 0x9F, CHR 0x93, CHR 0x81]"

text \<open>
  \<^verbatim>\<open>create_video\<close> returns its Boolean, or raises what the two \<^verbatim>\<open>except\<close>
  clauses do not catch (another error of the launch, or \<^verbatim>\<open>UnicodeDecodeError\<close> from
  the decoding of the captured output); beside the result stand the console lines and
  encoder launches in order, and the file system afterwards.
\<close>

definition create_video ::
  "os_env \<Rightarrow> ffmpeg_globals \<Rightarrow> filesystem \<Rightarrow> (py_exn + bool) \<times> event list \<times> filesystem" where
  "create_video env g fs =
     (if \<not> path_exists fs (SAVE_DIR g) then
        (Inr False, [Print (''Directory '' @ SAVE_DIR g @ '' does not exist.'')], fs)
      else
        let image_pattern = path_join (SAVE_DIR g) ''frame_*.jpg'';
            image_files = glob fs image_pattern
        in
        if image_files = [] then
          (Inr False, [Print (''No image files found in '' @ SAVE_DIR g)], fs)
        else
          let found = Print (''Found '' @ str_int (int (length image_files)) @ '' images. Creating video...'');
              cmd = ffmpeg_cmd g
          in case subprocess_run env cmd fs of
               (Exited rc out_bytes err_bytes, fs') \<Rightarrow>
                 (case (decode env out_bytes, decode env err_bytes) of
                    (Some out, Some err) \<Rightarrow>
                      if rc \<noteq> 0 then
                        (Inr False,
                         [found, Run cmd,
                          Print (cross_mark @ '' ffmpeg failed with error code '' @ str_int rc),
                          Print (''Error output: '' @ err)],
                         fs')
                      else
                        (Inr True,
                         [found, Run cmd, Print (check_mark @ '' Video created: '' @ VIDEO_FILE g)] @
                         (if path_exists fs' (VIDEO_FILE g) then
                            [Print (folder_mark @ '' Video size: '' @
                               format_1f env (real (getsize fs' (VIDEO_FILE g)) / (1024 * 1024)) @ '' MB'')]
                          else []),
                         fs')
                  | _ \<Rightarrow> (Inl UnicodeDecodeError, [found, Run cmd], fs'))
             | (NotInstalled, _) \<Rightarrow>
                 (Inr False,
                  [found, Run cmd, Print (cross_mark @ '' ffmpeg not found. Please install ffmpeg.'')],
                  fs)
             | (LaunchFailed msg, _) \<Rightarrow>
                 (Inl (OSError msg), [found, Run cmd], fs))"

text \<open>
  \<^verbatim>\<open>create_video_with_bitrate\<close>: the globals are saved, overridden, and written
  back after \<^verbatim>\<open>create_video\<close> has returned. There is no \<^verbatim>\<open>try\<close>: an exception
  leaves the function before the two restoring assignments. \<^verbatim>\<open>output_name\<close> is
  \<^verbatim>\<open>None\<close> or a string, and \<^verbatim>\<open>if output_name\<close> is false for both \<^verbatim>\<open>None\<close>
  and the empty string.
\<close>

definition truthy :: "string option \<Rightarrow> bool" where
  "truthy x = (case x of None \<Rightarrow> False | Some s \<Rightarrow> s \<noteq> [])"

definition override_globals :: "string \<Rightarrow> string option \<Rightarrow> ffmpeg_globals \<Rightarrow> ffmpeg_globals" where
  "override_globals bitrate output_name g =
     (let g1 = g\<lparr>BITRATE := bitrate\<rparr>
      in if truthy output_name then g1\<lparr>VIDEO_FILE := the output_name\<rparr> else g1)"

definition create_video_with_bitrate ::
  "os_env \<Rightarrow> string \<Rightarrow> string option \<Rightarrow> ffmpeg_globals \<Rightarrow> filesystem \<Rightarrow>
   (py_exn + bool) \<times> ffmpeg_globals \<times> event list \<times> filesystem" where
  "create_video_with_bitrate env bitrate output_name g fs =
     (let original_bitrate = BITRATE g;
          original_video = VIDEO_FILE g;
          g' = override_globals bitrate output_name g
      in case create_video env g' fs of
           (Inl e, out, fs') \<Rightarrow> (Inl e, g', out, fs')
         | (Inr success, out, fs') \<Rightarrow>
             (Inr success, g'\<lparr>BITRATE := original_bitrate, VIDEO_FILE := original_video\<rparr>, out, fs'))"

definition encoder_runs :: "event list \<Rightarrow> string list list" where
  "encoder_runs evs = concat (map (\<lambda>e. case e of Run cmd \<Rightarrow> [cmd] | _ \<Rightarrow> []) evs)"


text \<open>
  The source directory is missing, or no file matches the frame pattern in it (the
  pattern \<^verbatim>\<open>frame_*.jpg\<close> joined to the directory finds nothing).
\<close>

definition no_frames :: "ffmpeg_globals \<Rightarrow> filesystem \<Rightarrow> bool" where
  "no_frames g fs =
     (\<not> path_exists fs (SAVE_DIR g) \<or> glob fs (path_join (SAVE_DIR g) ''frame_*.jpg'') = [])"

section \<open>The simulator session\<close>

text \<open>
  The simulator server and its client library are outside the repository. The model
  keeps what the scripts can observe of them:
  \<^item> the settings the server currently runs with;
  \<^item> the \<^verbatim>\<open>WorldSettings\<close> objects the client holds. \<^verbatim>\<open>world.get_settings()\<close>
    returns a fresh object holding a copy of the server's settings; a Python
    assignment \<^verbatim>\<open>a = b\<close> copies the reference, not the object, so the objects live
    in an explicit store and variables hold references into it;
  \<^item> a clock counting the simulation steps and sleeps so far, which indexes what the
    simulator does next;
  \<^item> the trace of events.
  The variables that the nested capture functions share with their enclosing
  function (\<^verbatim>\<open>nonlocal\<close>) extend this record.
\<close>

type_synonym ref = nat

record world =
  server_settings :: settings
  heap :: "ref \<Rightarrow> settings"
  next_ref :: ref
  clock :: nat
  trace :: "event list"

record session = world +
  frame_count :: int
  captured_image :: "image option"
  camera :: "actor option"
  start_time :: "real option"

text \<open>
  A vehicle as one step of the simulation shows it: its identifier and what reading
  its transform (the two coordinates the scripts print) and its velocity gives, a
  value or an exception when the actor is gone.
\<close>

record vehicle =
  vid :: int
  get_transform :: "py_exn + real \<times> real"
  get_velocity :: "py_exn + real \<times> real"

text \<open>
  The behaviour of the simulator and of the operating system, as parameters: the
  buffers the camera delivers to its callback during each step, the vehicles present
  at each step, whether a spawn or a replay request succeeds, the wall clock, and
  the double-precision operations \<^verbatim>\<open>int(duration * FPS)\<close>, \<^verbatim>\<open>str\<close> and
  \<^verbatim>\<open>:.1f\<close> on floats.
\<close>

record simulator =
  frames_at :: "nat \<Rightarrow> image list"
  vehicles_at :: "nat \<Rightarrow> vehicle list"
  spawn_actor :: "string \<Rightarrow> nat \<Rightarrow> py_exn + actor"
  replay_file :: "string \<Rightarrow> py_exn option"
  wall_time :: "nat \<Rightarrow> real"
  abspath :: "string \<Rightarrow> string"
  frames_for :: "real \<Rightarrow> int"
  str_float :: "real \<Rightarrow> string"
  fmt_1f :: "real \<Rightarrow> string"

text \<open>
  A Python number that is an \<^verbatim>\<open>int\<close> on one path and a \<^verbatim>\<open>float\<close> on the other
  (the \<^verbatim>\<open>target\<close> of the capture functions).
\<close>

datatype number = PyInt int | PyFloat real

definition int_less :: "int \<Rightarrow> number \<Rightarrow> bool" where
  "int_less i t = (case t of PyInt n \<Rightarrow> i < n | PyFloat x \<Rightarrow> real_of_int i < x)"

definition real_of_number :: "number \<Rightarrow> real" where
  "real_of_number t = (case t of PyInt n \<Rightarrow> real_of_int n | PyFloat x \<Rightarrow> x)"

definition str_number :: "simulator \<Rightarrow> number \<Rightarrow> string" where
  "str_number env t = (case t of PyInt n \<Rightarrow> str_int n | PyFloat x \<Rightarrow> str_float env x)"

definition str_exn :: "py_exn \<Rightarrow> string" where
  "str_exn e = (case e of OSError m \<Rightarrow> m | RuntimeError m \<Rightarrow> m
        | IndexError \<Rightarrow> ''list index out of range''
        | UnicodeDecodeError \<Rightarrow> ''invalid start byte'')"

definition basename :: "string \<Rightarrow> string" where
  "basename p = rev (takeWhile (\<lambda>c. c \<noteq> CHR ''/'') (rev p))"

subsection \<open>Calls into the client library\<close>

definition emit :: "event \<Rightarrow> 'a world_scheme \<Rightarrow> 'a world_scheme" where
  "emit e w = w\<lparr>trace := trace w @ [e]\<rparr>"

definition get_settings :: "'a world_scheme \<Rightarrow> ref \<times> 'a world_scheme" where
  "get_settings w =
     (next_ref w, w\<lparr>heap := (heap w)(next_ref w := server_settings w), next_ref := Suc (next_ref w)\<rparr>)"

definition set_synchronous_mode :: "ref \<Rightarrow> bool \<Rightarrow> 'a world_scheme \<Rightarrow> 'a world_scheme" where
  "set_synchronous_mode r b w = w\<lparr>heap := (heap w)(r := (heap w r)\<lparr>synchronous_mode := b\<rparr>)\<rparr>"

definition set_fixed_delta_seconds :: "ref \<Rightarrow> real option \<Rightarrow> 'a world_scheme \<Rightarrow> 'a world_scheme" where
  "set_fixed_delta_seconds r d w = w\<lparr>heap := (heap w)(r := (heap w r)\<lparr>fixed_delta_seconds := d\<rparr>)\<rparr>"

definition apply_settings :: "ref \<Rightarrow> 'a world_scheme \<Rightarrow> 'a world_scheme" where
  "apply_settings r w = emit (ApplySettings (heap w r)) (w\<lparr>server_settings := heap w r\<rparr>)"

text \<open>
  \<^verbatim>\<open>world.tick()\<close> and \<^verbatim>\<open>time.sleep\<close> let the simulation advance by one step of
  the clock; the sensor callback, when one is registered, is called on every buffer
  delivered during that step before the call returns.
\<close>

definition tick :: "simulator \<Rightarrow> (image \<Rightarrow> 'a world_scheme \<Rightarrow> 'a world_scheme) \<Rightarrow>
    'a world_scheme \<Rightarrow> 'a world_scheme" where
  "tick env callback w =
     fold callback (frames_at env (clock w)) (emit Tick (w\<lparr>clock := Suc (clock w)\<rparr>))"

definition sleep :: "simulator \<Rightarrow> real \<Rightarrow> (image \<Rightarrow> 'a world_scheme \<Rightarrow> 'a world_scheme) \<Rightarrow>
    'a world_scheme \<Rightarrow> 'a world_scheme" where
  "sleep env seconds callback w =
     fold callback (frames_at env (clock w)) (emit (Sleep seconds) (w\<lparr>clock := Suc (clock w)\<rparr>))"

definition no_callback :: "image \<Rightarrow> 'a world_scheme \<Rightarrow> 'a world_scheme" where
  "no_callback img w = w"

section \<open>The replay driver (\<^verbatim>\<open>src/playback/replay_with_sensors.py\<close>)\<close>

text \<open>
  \<^verbatim>\<open>run_replay\<close>. The result is \<^term>\<open>None\<close> when the capture function does not
  return; otherwise the exception that leaves the function, if any, and the state.
  \<^verbatim>\<open>original_settings = settings\<close> binds a second name to the one object that the
  next lines modify. The request to replay and the ten steps after it stand outside
  the \<^verbatim>\<open>try\<close>. \<^verbatim>\<open>1.0 / FPS\<close> is written as the rational \<open>1 / 20\<close>.
\<close>

definition run_replay ::
  "simulator \<Rightarrow> filesystem \<Rightarrow> string \<Rightarrow>
   (number \<Rightarrow> bool \<Rightarrow> 'a world_scheme \<Rightarrow> (py_exn option \<times> 'a world_scheme) option) \<Rightarrow>
   real \<Rightarrow> bool \<Rightarrow> 'a world_scheme \<Rightarrow> (py_exn option \<times> 'a world_scheme) option" where
  "run_replay env fs log_file0 capture_func duration sync_mode w0 =
     (let log_file = abspath env log_file0 in
      if \<not> path_exists fs log_file then
        Some (None, emit (Print (''Log file not found: '' @ log_file)) w0)
      else
        let w1 = emit (Print (''Starting replay: '' @ basename log_file)) w0;
            (settings, w2) = get_settings w1;
            original_settings = settings;
            w3 = (if sync_mode then
                    emit (Print (''Using SYNCHRONOUS mode - exact '' @ str_int (frames_for env duration) @ '' frames''))
                      (apply_settings settings
                        (set_fixed_delta_seconds settings (Some (1 / 20))
                          (set_synchronous_mode settings True w2)))
                  else
                    emit (Print (''Using ASYNCHRONOUS mode - '' @ str_float env duration @ '' seconds real-time''))
                      (apply_settings settings (set_synchronous_mode settings False w2)));
            w4 = emit (ReplayFile log_file 0 0 0) w3
        in case replay_file env log_file of
             Some e \<Rightarrow> Some (Some e, w4)
           | None \<Rightarrow>
               let w5 = emit (Print ''Waiting for replay to initialize...'') w4;
                   w6 = (if sync_mode then fold (\<lambda>_. tick env no_callback) [0..<10] w5
                         else sleep env 1 no_callback w5)
               in (case (if sync_mode then capture_func (PyInt (frames_for env duration)) sync_mode w6
                         else capture_func (PyFloat duration) sync_mode w6) of
                     None \<Rightarrow> None
                   | Some (raised, w7) \<Rightarrow> Some (raised, apply_settings original_settings w7)))"

subsection \<open>The lock-step capture loop\<close>

text \<open>
  The same loop stands in \<^verbatim>\<open>capture_frames\<close>, in \<^verbatim>\<open>follow_vehicle\<close> and in
  the recorder's \<^verbatim>\<open>main\<close>: step the simulation, and when the callback has left a
  buffer in \<^verbatim>\<open>captured_image\<close>, save it under the next number, count it and empty
  the holder. Nothing bounds the number of iterations, so the loop is a partial
  function and \<^term>\<open>None\<close> stands for a loop that never ends. The enclosing
  functions set \<^verbatim>\<open>frame_count = 0\<close> and \<^verbatim>\<open>captured_image = None\<close> before the
  loop is reached.
\<close>

definition on_image :: "image \<Rightarrow> session \<Rightarrow> session" where
  "on_image img s = s\<lparr>captured_image := Some img\<rparr>"

definition frame_file :: "string \<Rightarrow> int \<Rightarrow> string" where
  "frame_file dir n = path_join dir (''frame_'' @ format_06d n @ ''.jpg'')"

definition drain :: "simulator \<Rightarrow> string \<Rightarrow> number \<Rightarrow> session \<Rightarrow> session" where
  "drain env dir target s =
     (case captured_image s of
        None \<Rightarrow> s
      | Some img \<Rightarrow>
          let s1 = emit (SaveToDisk (frame_file dir (frame_count s)) img) s;
              s2 = s1\<lparr>frame_count := frame_count s1 + 1\<rparr>;
              s3 = s2\<lparr>captured_image := None\<rparr>
          in if frame_count s3 mod 20 = 0 then
               emit (Print (''Captured '' @ str_int (frame_count s3) @ ''/'' @ str_number env target @ '' frames'')) s3
             else s3)"

definition capture_iteration :: "simulator \<Rightarrow> string \<Rightarrow> number \<Rightarrow> session \<Rightarrow> session" where
  "capture_iteration env dir target s = drain env dir target (tick env on_image s)"

partial_function (option) capture_loop ::
  "simulator \<Rightarrow> string \<Rightarrow> number \<Rightarrow> session \<Rightarrow> session option" where
  "capture_loop env dir target s =
     (if int_less (frame_count s) target
      then capture_loop env dir target (capture_iteration env dir target s)
      else Some s)"

subsection \<open>Capture bounded by the wall clock\<close>

definition since_start :: "simulator \<Rightarrow> session \<Rightarrow> real" where
  "since_start env s = wall_time env (clock s) - (case start_time s of Some t \<Rightarrow> t | None \<Rightarrow> 0)"

definition progress_line :: "simulator \<Rightarrow> session \<Rightarrow> string" where
  "progress_line env s =
     (let elapsed = since_start env s;
          fps_actual = (if elapsed > 0 then real_of_int (frame_count s) / elapsed else 0)
      in ''Recording... '' @ fmt_1f env elapsed @ ''s elapsed, '' @ str_int (frame_count s) @
         '' frames ('' @ fmt_1f env fps_actual @ '' FPS)'')"

definition save_image :: "simulator \<Rightarrow> string \<Rightarrow> image \<Rightarrow> session \<Rightarrow> session" where
  "save_image env dir img s =
     (let s1 = emit (SaveToDisk (frame_file dir (frame_count s)) img) s;
          s2 = s1\<lparr>frame_count := frame_count s1 + 1\<rparr>
      in if frame_count s2 mod 20 = 0 then emit (Print (progress_line env s2)) s2 else s2)"

partial_function (option) sleep_until ::
  "simulator \<Rightarrow> (image \<Rightarrow> session \<Rightarrow> session) \<Rightarrow> (session \<Rightarrow> session) \<Rightarrow> real \<Rightarrow> session \<Rightarrow>
   session option" where
  "sleep_until env callback after limit s =
     (if since_start env s < limit
      then sleep_until env callback after limit (after (sleep env (1 / 10) callback s))
      else Some s)"

definition create_camera :: "simulator \<Rightarrow> bool \<Rightarrow> session \<Rightarrow> py_exn + actor \<times> session" where
  "create_camera env sync_mode s =
     (case spawn_actor env ''sensor.camera.rgb'' (clock s) of
        Inl e \<Rightarrow> Inl e
      | Inr cam \<Rightarrow> Inr (cam, emit (Spawn ''sensor.camera.rgb'') s))"

text \<open>\<^verbatim>\<open>camera_mode.capture_frames\<close>.\<close>

definition capture_frames ::
  "simulator \<Rightarrow> string \<Rightarrow> number \<Rightarrow> bool \<Rightarrow> session \<Rightarrow> (py_exn option \<times> session) option" where
  "capture_frames env output_dir target sync_mode s =
     (case create_camera env sync_mode s of
        Inl e \<Rightarrow> Some (Some e, s)
      | Inr (cam, s1) \<Rightarrow>
          let s2 = s1\<lparr>camera := Some cam\<rparr>;
              s3 = s2\<lparr>start_time := Some (wall_time env (clock s2))\<rparr>
          in if sync_mode then
               map_option (Pair None)
                 (capture_loop env output_dir target
                   (emit (Print (''Capturing '' @ str_number env target @ '' frames at 20 FPS to: '' @ output_dir))
                     (emit (Listen cam) s3)))
             else
               map_option (Pair None)
                 (sleep_until env (save_image env output_dir) id (real_of_number target)
                   (emit (Print (''Recording for '' @ str_number env target @ '' seconds to: '' @ output_dir))
                     (emit (Listen cam) s3))))"

subsection \<open>Waiting for the replayed vehicles\<close>

text \<open>
  The wait loop of \<^verbatim>\<open>extract_data\<close> and \<^verbatim>\<open>follow_vehicle\<close>, with its two loop
  variables as arguments. \<^verbatim>\<open>max_wait_attempts\<close> is the local constant 50.
\<close>

definition max_wait_attempts :: int where
  "max_wait_attempts = 50"

definition wait_step :: "simulator \<Rightarrow> bool \<Rightarrow> session \<Rightarrow> session" where
  "wait_step env sync_mode s =
     (if sync_mode then tick env no_callback s else sleep env (1 / 10) no_callback s)"

definition still_waiting :: "simulator \<Rightarrow> int \<Rightarrow> session \<Rightarrow> session" where
  "still_waiting env wait_attempts s =
     (if wait_attempts mod 10 = 0 then
        emit (Print (''Still waiting for vehicles... ('' @ fmt_1f env (real_of_int wait_attempts / 10) @ ''s)'')) s
      else s)"

function wait_for_vehicles ::
  "simulator \<Rightarrow> bool \<Rightarrow> vehicle list \<Rightarrow> int \<Rightarrow> session \<Rightarrow> vehicle list \<times> int \<times> session" where
  "wait_for_vehicles env sync_mode vehicles wait_attempts s =
     (if vehicles = [] \<and> wait_attempts < max_wait_attempts then
        let s1 = wait_step env sync_mode s;
            vehicles' = vehicles_at env (clock s1);
            wait_attempts' = wait_attempts + 1
        in wait_for_vehicles env sync_mode vehicles' wait_attempts' (still_waiting env wait_attempts' s1)
      else (vehicles, wait_attempts, s))"
  by pat_completeness auto
termination
  by (relation "measure (\<lambda>(env, sync_mode, vehicles, wait_attempts, s). nat (max_wait_attempts - wait_attempts))")
    auto

declare wait_for_vehicles.simps [simp del]

text \<open>Indexing a sequence at 0, as in \<^verbatim>\<open>vehicles[0]\<close>: an empty one has no such element.\<close>

definition first :: "'a list \<Rightarrow> py_exn + 'a" where
  "first xs = (if xs = [] then Inl IndexError else Inr (hd xs))"

text \<open>\<^verbatim>\<open>follow_mode.follow_vehicle\<close>.\<close>

definition follow_vehicle ::
  "simulator \<Rightarrow> string \<Rightarrow> number \<Rightarrow> bool \<Rightarrow> session \<Rightarrow> (py_exn option \<times> session) option" where
  "follow_vehicle env output_dir target sync_mode s0 =
     (let (vehicles, wait_attempts, s1) =
            wait_for_vehicles env sync_mode [] 0
              (emit (Print ''Waiting for vehicles to spawn from replay...'') s0)
      in if vehicles = [] then
           Some (None, emit (Print ''No vehicles found after waiting 5 seconds'') s1)
         else
           case first vehicles of
             Inl e \<Rightarrow> Some (Some e, s1)
           | Inr target_vehicle \<Rightarrow>
               (case create_camera env sync_mode s1 of
                  Inl e \<Rightarrow> Some (Some e, s1)
                | Inr (cam, s2) \<Rightarrow>
                    let s3 = s2\<lparr>camera := Some cam\<rparr>;
                        s4 = s3\<lparr>start_time := Some (wall_time env (clock s3))\<rparr>
                    in if sync_mode then
                         map_option (Pair None)
                           (capture_loop env output_dir target
                             (emit (Print (''Following vehicle '' @ str_int (vid target_vehicle) @ '', capturing '' @
                                      str_number env target @ '' frames at 20 FPS to: '' @ output_dir))
                               (emit (Listen cam) s4)))
                       else
                         map_option (Pair None)
                           (sleep_until env (save_image env output_dir) id (real_of_number target)
                             (emit (Print (''Following vehicle '' @ str_int (vid target_vehicle) @ '' for '' @
                                      str_number env target @ '' seconds to: '' @ output_dir))
                               (emit (Listen cam) s4)))))"

subsection \<open>Telemetry extraction\<close>

text \<open>
  One vehicle's line: both reads stand inside a \<^verbatim>\<open>try\<close> whose bare \<^verbatim>\<open>except\<close>
  passes, so a failed read writes nothing for that vehicle and the loop goes on with
  the next one.
\<close>

definition newline :: string where
  "newline = [CHR 0x0A]"

definition vehicle_line :: "simulator \<Rightarrow> vehicle \<Rightarrow> string option" where
  "vehicle_line env v =
     (case get_transform v of
        Inl _ \<Rightarrow> None
      | Inr (x, y) \<Rightarrow>
          (case get_velocity v of
             Inl _ \<Rightarrow> None
           | Inr (vx, vy) \<Rightarrow>
               Some (''Vehicle '' @ str_int (vid v) @ '': pos=('' @ fmt_1f env x @ '','' @ fmt_1f env y @
                     '') vel=('' @ fmt_1f env vx @ '','' @ fmt_1f env vy @ '')'' @ newline)))"

definition write_vehicle :: "simulator \<Rightarrow> string \<Rightarrow> vehicle \<Rightarrow> session \<Rightarrow> session" where
  "write_vehicle env f v s =
     (case vehicle_line env v of None \<Rightarrow> s | Some line \<Rightarrow> emit (FileWrite f line) s)"

definition frame_header :: "int \<Rightarrow> string" where
  "frame_header n = newline @ ''--- Frame '' @ str_int n @ '' ---'' @ newline"

definition write_block :: "simulator \<Rightarrow> string \<Rightarrow> vehicle list \<Rightarrow> session \<Rightarrow> session" where
  "write_block env f vehicles s =
     fold (write_vehicle env f) vehicles (emit (FileWrite f (frame_header (frame_count s))) s)"

definition extract_iteration :: "simulator \<Rightarrow> string \<Rightarrow> number \<Rightarrow> session \<Rightarrow> session" where
  "extract_iteration env f target s =
     (let s1 = tick env no_callback s;
          vehicles = vehicles_at env (clock s1);
          s2 = write_block env f vehicles s1;
          s3 = s2\<lparr>frame_count := frame_count s2 + 1\<rparr>
      in if frame_count s3 mod 20 = 0 then
           emit (Print (''Processed '' @ str_int (frame_count s3) @ ''/'' @ str_number env target @ '' frames'')) s3
         else s3)"

definition extract_iteration_async :: "simulator \<Rightarrow> string \<Rightarrow> session \<Rightarrow> session" where
  "extract_iteration_async env f s =
     (let vehicles = vehicles_at env (clock s);
          s2 = write_block env f vehicles s;
          s3 = s2\<lparr>frame_count := frame_count s2 + 1\<rparr>;
          s4 = (if frame_count s3 mod 20 = 0 then emit (Print (progress_line env s3)) s3 else s3)
      in sleep env (1 / 20) no_callback s4)"

text \<open>
  The lock-step extraction loop counts a frame in every iteration, so it ends; the
  facts below about the counter are what its termination proof needs.
\<close>

lemma frame_count_emit [simp]: "frame_count (emit e s) = frame_count s"
  by (simp add: emit_def)

lemma frame_count_fold_no_callback [simp]: "frame_count (fold no_callback imgs s) = frame_count s"
  by (induction imgs arbitrary: s) (simp_all add: no_callback_def)

lemma frame_count_tick_no_callback [simp]: "frame_count (tick env no_callback s) = frame_count s"
  by (simp add: tick_def)

lemma frame_count_write_vehicle [simp]: "frame_count (write_vehicle env f v s) = frame_count s"
  by (simp add: write_vehicle_def split: option.splits)

lemma frame_count_fold_write_vehicle [simp]:
  "frame_count (fold (write_vehicle env f) vs s) = frame_count s"
  by (induction vs arbitrary: s) simp_all

lemma frame_count_write_block [simp]: "frame_count (write_block env f vs s) = frame_count s"
  by (simp add: write_block_def)

lemma frame_count_extract_iteration [simp]:
  "frame_count (extract_iteration env f target s) = frame_count s + 1"
  by (simp add: extract_iteration_def Let_def)

lemma int_less_ceiling: "int_less i t \<Longrightarrow> i < \<lceil>real_of_number t\<rceil>"
  by (cases t) (simp_all add: int_less_def real_of_number_def less_ceiling_iff)

function extract_loop :: "simulator \<Rightarrow> string \<Rightarrow> number \<Rightarrow> session \<Rightarrow> session" where
  "extract_loop env f target s =
     (if int_less (frame_count s) target
      then extract_loop env f target (extract_iteration env f target s)
      else s)"
  by pat_completeness auto
termination
proof (relation "measure (\<lambda>(env, f, target, s). nat (\<lceil>real_of_number target\<rceil> - frame_count s))")
  show "wf (measure (\<lambda>(env, f, target, s). nat (\<lceil>real_of_number target\<rceil> - frame_count s)))"
    by simp
next
  fix env :: simulator and f :: string and target :: number and s :: session
  assume "int_less (frame_count s) target"
  then have "frame_count s < \<lceil>real_of_number target\<rceil>"
    by (rule int_less_ceiling)
  then show "((env, f, target, extract_iteration env f target s), (env, f, target, s))
      \<in> measure (\<lambda>(env, f, target, s). nat (\<lceil>real_of_number target\<rceil> - frame_count s))"
    by simp
qed

declare extract_loop.simps [simp del]

partial_function (option) extract_until ::
  "simulator \<Rightarrow> string \<Rightarrow> real \<Rightarrow> session \<Rightarrow> session option" where
  "extract_until env f limit s =
     (if since_start env s < limit
      then extract_until env f limit (extract_iteration_async env f s)
      else Some s)"

text \<open>\<^verbatim>\<open>data_mode.extract_data\<close>, writing to \<^verbatim>\<open>output_file\<close>.\<close>

definition extract_data ::
  "simulator \<Rightarrow> string \<Rightarrow> number \<Rightarrow> bool \<Rightarrow> session \<Rightarrow> (py_exn option \<times> session) option" where
  "extract_data env output_file target sync_mode s0 =
     (let s1 = s0\<lparr>start_time := Some (wall_time env (clock s0))\<rparr>;
          (vehicles, wait_attempts, s2) =
            wait_for_vehicles env sync_mode [] 0
              (emit (Print ''Waiting for vehicles to spawn from replay...'') s1)
      in if vehicles = [] then
           Some (None, emit (Print ''No vehicles found after waiting 5 seconds'') s2)
         else
           let s3 = emit (Print (''Found '' @ str_int (int (length vehicles)) @ '' vehicle(s) to track'')) s2;
               s4 = emit (FileOpen output_file) s3
           in if sync_mode then
                Some (None,
                  extract_loop env output_file target
                    (emit (Print (''Extracting vehicle data for '' @ str_number env target @ '' frames...'')) s4))
              else
                map_option (Pair None)
                  (extract_until env output_file (real_of_number target)
                    (emit (Print (''Extracting vehicle data for '' @ str_number env target @ '' seconds...'')) s4)))"

section \<open>The recorder (\<^verbatim>\<open>record_images.py\<close>)\<close>

text \<open>
  The recorder's module constants. Its \<^verbatim>\<open>SAVE_DIR\<close> and \<^verbatim>\<open>FPS\<close> carry the
  prefix \<open>RECORD\<close> here, the plain names being those of the assembler's globals.
\<close>

definition RECORD_SAVE_DIR :: string where
  "RECORD_SAVE_DIR = ''output_images''"

definition RECORD_TIME :: int where
  "RECORD_TIME = 5"

definition RECORD_FPS :: int where
  "RECORD_FPS = 20"

definition SYNCHRONOUS_MODE :: bool where
  "SYNCHRONOUS_MODE = True"

text \<open>The recorder's callback \<^verbatim>\<open>save_image\<close> and the body of its wall-clock loop.\<close>

definition recorder_save_image :: "image \<Rightarrow> session \<Rightarrow> session" where
  "recorder_save_image img s =
     (if SYNCHRONOUS_MODE then s\<lparr>captured_image := Some img\<rparr>
      else
        let s1 = emit (SaveToDisk (frame_file RECORD_SAVE_DIR (frame_count s)) img) s;
            s2 = s1\<lparr>frame_count := frame_count s1 + 1\<rparr>
        in if frame_count s2 mod 20 = 0 then
             emit (Print (''Captured '' @ str_int (frame_count s2) @ '' frames'')) s2
           else s2)"

definition recorder_progress :: "simulator \<Rightarrow> session \<Rightarrow> session" where
  "recorder_progress env s =
     (if frame_count s > 0 \<and> frame_count s mod 20 = 0 then emit (Print (progress_line env s)) s else s)"

text \<open>
  \<^verbatim>\<open>main\<close>, from the state reached once the client is connected and the town is
  loaded. The original settings and the settings to modify come from two calls of
  \<^verbatim>\<open>get_settings\<close>, so they are two objects. No statement of \<^verbatim>\<open>main\<close> stands in
  a \<^verbatim>\<open>try\<close>: an exception of a spawn call leaves the function at once.
\<close>

definition main :: "simulator \<Rightarrow> session \<Rightarrow> (py_exn option \<times> session) option" where
  "main env s0 =
     (let (original_settings, s1) = get_settings s0;
          (settings, s2) = get_settings s1;
          s3 = (if SYNCHRONOUS_MODE then
                  emit (Print (''Using SYNCHRONOUS mode - exact '' @ str_int (RECORD_TIME * RECORD_FPS) @ '' frames''))
                    (apply_settings settings
                      (set_fixed_delta_seconds settings (Some (1 / real_of_int RECORD_FPS))
                        (set_synchronous_mode settings True s2)))
                else
                  emit (Print (''Using ASYNCHRONOUS mode - '' @ str_int RECORD_TIME @ '' seconds real-time''))
                    (apply_settings settings (set_synchronous_mode settings False s2)))
      in case spawn_actor env ''vehicle.tesla.model3'' (clock s3) of
           Inl e \<Rightarrow> Some (Some e, s3)
         | Inr vehicle \<Rightarrow>
             let s4 = emit (Spawn ''vehicle.tesla.model3'') s3
             in (case spawn_actor env ''sensor.camera.rgb'' (clock s4) of
                   Inl e \<Rightarrow> Some (Some e, s4)
                 | Inr cam \<Rightarrow>
                     let s5 = emit (MakeDirs RECORD_SAVE_DIR) (emit (Spawn ''sensor.camera.rgb'') s4);
                         s6 = s5\<lparr>frame_count := 0, captured_image := None\<rparr>;
                         s7 = emit (SetAutopilot vehicle) (emit (Listen cam) s6);
                         recorded =
                           (if SYNCHRONOUS_MODE then
                              capture_loop env RECORD_SAVE_DIR (PyInt (RECORD_TIME * RECORD_FPS))
                                (emit (Print (''Recording '' @ str_int (RECORD_TIME * RECORD_FPS) @ '' frames...'')) s7)
                            else
                              sleep_until env recorder_save_image (recorder_progress env) (real_of_int RECORD_TIME)
                                ((emit (Print (''Recording for '' @ str_int RECORD_TIME @ '' seconds...'')) s7)
                                   \<lparr>start_time := Some (wall_time env (clock s7))\<rparr>))
                     in map_option
                          (\<lambda>s8. (None,
                             apply_settings original_settings
                               (emit (Destroy vehicle) (emit (Destroy cam) (emit (Stop cam)
                                 (emit (Print (''Recording completed. '' @ str_int (frame_count s8) @ '' frames saved.'')) s8))))))
                          recorded))"

section \<open>Log replay (\<^verbatim>\<open>src/recording/record_replay_logs.py\<close>)\<close>

text \<open>
  \<^verbatim>\<open>replay_log\<close> catches every exception of the replay request, so it always
  returns normally; the result is the state alone. \<^verbatim>\<open>duration\<close> is the integer
  that the command line parser produces.
\<close>

definition replay_log ::
  "simulator \<Rightarrow> filesystem \<Rightarrow> string \<Rightarrow> real \<Rightarrow> int \<Rightarrow> int \<Rightarrow> 'a world_scheme \<Rightarrow> 'a world_scheme" where
  "replay_log env fs log_filename0 start duration follow_id w0 =
     (let log_filename = abspath env log_filename0;
          w1 = emit (Print (''Checking log file: '' @ log_filename)) w0
      in if \<not> path_exists fs log_filename then
           emit (Print (''Log file '' @ log_filename @ '' not found!'')) w1
         else
           let file_size = getsize fs log_filename;
               w2 = emit (Print (''File exists, size: '' @ str_int (int file_size) @ '' bytes'')) w1;
               w3 = emit (Print (''Replaying '' @ log_filename @ ''...'')) w2;
               w4 = emit (ReplayFile log_filename start (real_of_int duration) follow_id) w3
           in case replay_file env log_filename of
                Some e \<Rightarrow>
                  emit (Print ''This might be because the CARLA server cannot access the file path.'')
                    (emit (Print (''Error starting replay: '' @ str_exn e)) w4)
              | None \<Rightarrow>
                  let w5 = emit (Print ''Replay started. The simulation will run the recorded events.'') w4;
                      w6 = (if duration > 0 then
                              sleep env (real_of_int duration) no_callback
                                (emit (Print (''Replay will run for '' @ str_int duration @ '' seconds...'')) w5)
                            else
                              sleep env 30 no_callback
                                (emit (Print ''Replay running... (press Ctrl+C to stop)'') w5))
                  in emit (Print ''Replay completed.'') w6)"

section \<open>Observing a run\<close>

text \<open>
  What the properties below read off a run: the steps, among the \<open>T\<close> steps from
  step \<open>c\<close> on, during which the camera delivers at least one buffer; the files
  that a trace saves, in order, with the buffer saved in each; and whether a trace
  keeps lock-step with the camera. In \<open>lock_step env c pending evs\<close> the trace
  \<open>evs\<close> begins at step \<open>c\<close> of the simulation and \<open>pending\<close> is the buffer
  that the latest step has delivered and that is not saved yet. A step may be taken
  only when no buffer is pending, and the last buffer it delivers becomes pending; a
  save must save the pending buffer; nothing is pending at the end. So the frame of a
  step is on disk before the next step is requested, and nothing else is ever saved.
\<close>

definition delivering :: "simulator \<Rightarrow> nat \<Rightarrow> nat \<Rightarrow> nat list" where
  "delivering env c T = filter (\<lambda>t. frames_at env t \<noteq> []) [c..<c + T]"

definition saved_files :: "event list \<Rightarrow> (string \<times> image) list" where
  "saved_files evs = concat (map (\<lambda>e. case e of SaveToDisk f img \<Rightarrow> [(f, img)] | _ \<Rightarrow> []) evs)"

fun lock_step :: "simulator \<Rightarrow> nat \<Rightarrow> image option \<Rightarrow> event list \<Rightarrow> bool" where
  "lock_step env c pending [] = (pending = None)"
| "lock_step env c pending (Tick # evs) =
     (pending = None \<and>
      lock_step env (Suc c) (if frames_at env c = [] then None else Some (last (frames_at env c))) evs)"
| "lock_step env c pending (SaveToDisk f img # evs) = (pending = Some img \<and> lock_step env c None evs)"
| "lock_step env c pending (e # evs) = lock_step env c pending evs"

text \<open>The progress line that the capture loop prints after every twentieth frame.\<close>

definition captured_note :: "simulator \<Rightarrow> number \<Rightarrow> int \<Rightarrow> event list" where
  "captured_note env target n =
     (if n mod 20 = 0
      then [Print (''Captured '' @ str_int n @ ''/'' @ str_number env target @ '' frames'')] else [])"

text \<open>
  The polling attempts in a trace (simulation steps and sleeps); what a file holds
  after a trace, as the list of the texts written to it since it was last opened for
  writing (\<^verbatim>\<open>open(output_file, 'w')\<close> empties it); whether a vehicle answers both
  reads of the telemetry loop; and the lines that a list of vehicles yields.
\<close>

definition is_poll :: "event \<Rightarrow> bool" where
  "is_poll e = (case e of Tick \<Rightarrow> True | Sleep _ \<Rightarrow> True | _ \<Rightarrow> False)"

definition polls :: "event list \<Rightarrow> nat" where
  "polls evs = length (filter is_poll evs)"

definition content_step :: "string \<Rightarrow> string list \<Rightarrow> event \<Rightarrow> string list" where
  "content_step f written e =
     (case e of
        FileOpen g \<Rightarrow> if g = f then [] else written
      | FileWrite g txt \<Rightarrow> if g = f then written @ [txt] else written
      | _ \<Rightarrow> written)"

definition file_content :: "string \<Rightarrow> event list \<Rightarrow> string list" where
  "file_content f evs = foldl (content_step f) [] evs"

definition reports :: "vehicle \<Rightarrow> bool" where
  "reports v = (\<not> isl (get_transform v) \<and> \<not> isl (get_velocity v))"

definition vehicle_lines :: "simulator \<Rightarrow> vehicle list \<Rightarrow> string list" where
  "vehicle_lines env vs = List.map_filter (vehicle_line env) vs"

text \<open>The number that a string of decimal digits denotes, leading zeros allowed.\<close>

definition digits_value :: "string \<Rightarrow> nat" where
  "digits_value cs = foldl (\<lambda>a c. 10 * a + (of_char c - 48)) 0 cs"

text \<open>The settings once the scripts have switched them to lock-step at 20 steps a second.\<close>

definition mutated :: "settings \<Rightarrow> settings" where
  "mutated st = st\<lparr>synchronous_mode := True, fixed_delta_seconds := Some (1 / 20)\<rparr>"

section \<open>Concrete surroundings\<close>

text \<open>
  Surroundings for the closed instances below. For the assembler: a file system whose
  frame directory exists and holds no frame, one that holds three frames, a decoding
  that refuses the byte \<open>0xFF\<close> (which no UTF-8 text contains), and encoders that
  succeed, fail, fail with output that does not decode, or are not installed.
\<close>

definition fs_no_frames :: filesystem where
  "fs_no_frames =
     \<lparr>path_exists = (\<lambda>p. p = ''output_images''), glob = (\<lambda>pattern. []), getsize = (\<lambda>_. 0)\<rparr>"

definition fs_three_frames :: filesystem where
  "fs_three_frames =
     \<lparr>path_exists = (\<lambda>p. p = ''output_images''),
      glob = (\<lambda>pattern. if pattern = ''output_images/frame_*.jpg''
                then [''output_images/frame_000000.jpg'', ''output_images/frame_000001.jpg'',
                      ''output_images/frame_000002.jpg'']
                else []),
      getsize = (\<lambda>_. 0)\<rparr>"

definition decode_utf8 :: "string \<Rightarrow> string option" where
  "decode_utf8 bytes = (if CHR 0xFF \<in> set bytes then None else Some bytes)"

definition env_ok :: os_env where
  "env_ok =
     \<lparr>subprocess_run = (\<lambda>cmd fs. (Exited 0 [] [], fs\<lparr>path_exists := (\<lambda>p. p = last cmd \<or> path_exists fs p)\<rparr>)),
      decode = decode_utf8, format_1f = (\<lambda>_. ''0.0'')\<rparr>"

definition env_failing :: os_env where
  "env_failing =
     \<lparr>subprocess_run = (\<lambda>cmd fs. (Exited 1 [] ''Unknown encoder'', fs)),
      decode = decode_utf8, format_1f = (\<lambda>_. ''0.0'')\<rparr>"


definition env_missing :: os_env where
  "env_missing =
     \<lparr>subprocess_run = (\<lambda>cmd fs. (NotInstalled, fs)),
      decode = decode_utf8, format_1f = (\<lambda>_. ''0.0'')\<rparr>"

text \<open>
  For the simulator scripts: a session in free-running mode with nothing done yet; a
  simulator whose camera delivers one buffer in every step, one that delivers in
  every second step only, one that never delivers, one that delivers from step 1 on,
  and one that refuses every spawn;
  and a file system that holds the replay log.
\<close>

definition session0 :: session where
  "session0 =
     \<lparr>server_settings = \<lparr>synchronous_mode = False, fixed_delta_seconds = None\<rparr>,
      heap = (\<lambda>_. \<lparr>synchronous_mode = False, fixed_delta_seconds = None\<rparr>),
      next_ref = 0, clock = 0, trace = [],
      frame_count = 0, captured_image = None, camera = None, start_time = None\<rparr>"

definition sim_steady :: simulator where
  "sim_steady =
     \<lparr>frames_at = (\<lambda>t. [t]), vehicles_at = (\<lambda>t. []),
      spawn_actor = (\<lambda>blueprint t. Inr 1), replay_file = (\<lambda>_. None),
      wall_time = real, abspath = (\<lambda>p. ''/data/'' @ p),
      frames_for = (\<lambda>d. \<lfloor>d * 20\<rfloor>), str_float = (\<lambda>_. ''1.0''), fmt_1f = (\<lambda>_. ''0.0'')\<rparr>"

definition sim_gappy :: simulator where
  "sim_gappy = sim_steady\<lparr>frames_at := (\<lambda>t. if even t then [t] else [])\<rparr>"

definition sim_silent :: simulator where
  "sim_silent = sim_steady\<lparr>frames_at := (\<lambda>t. [])\<rparr>"

definition sim_late :: simulator where
  "sim_late = sim_steady\<lparr>frames_at := (\<lambda>t. if t = 0 then [] else [t])\<rparr>"

definition sim_crowded :: simulator where
  "sim_crowded =
     sim_steady\<lparr>spawn_actor := (\<lambda>blueprint t. Inl (RuntimeError ''Spawn failed because of collision at spawn position''))\<rparr>"

definition fs_log :: filesystem where
  "fs_log =
     \<lparr>path_exists = (\<lambda>p. p = ''/data/recording.log''), glob = (\<lambda>pattern. []), getsize = (\<lambda>p. 4096)\<rparr>"

text \<open>
  Vehicles that answer and one whose actor is gone; a simulator whose replay shows
  three vehicles, the second of them gone, and later two; and one whose replay shows
  the same three vehicles at every step, the second of them gone at step 2 only.
\<close>

definition car :: vehicle where
  "car = \<lparr>vid = 24, get_transform = Inr (1, 2), get_velocity = Inr (3, 0)\<rparr>"

definition ghost :: vehicle where
  "ghost = \<lparr>vid = 25, get_transform = Inl (RuntimeError ''trying to operate on a destroyed actor''),
            get_velocity = Inl (RuntimeError ''trying to operate on a destroyed actor'')\<rparr>"

definition sim_traffic :: simulator where
  "sim_traffic = sim_steady\<lparr>vehicles_at := (\<lambda>t. if t < 3 then [car, ghost, car] else [car, car])\<rparr>"

definition van :: vehicle where
  "van = \<lparr>vid = 25, get_transform = Inr (5, 2), get_velocity = Inr (3, 0)\<rparr>"

definition truck :: vehicle where
  "truck = \<lparr>vid = 26, get_transform = Inr (9, 2), get_velocity = Inr (3, 0)\<rparr>"

definition sim_convoy :: simulator where
  "sim_convoy = sim_steady\<lparr>vehicles_at := (\<lambda>t. if t = 2 then [car, ghost, truck] else [car, van, truck])\<rparr>"

section \<open>Properties of the video assembler\<close>

lemma no_frames_fs_no_frames: "no_frames initial_globals fs_no_frames"
  by (simp add: no_frames_def fs_no_frames_def)

lemma pattern_initial_globals:
  "path_join (SAVE_DIR initial_globals) ''frame_*.jpg'' = ''output_images/frame_*.jpg''"
  by (simp add: initial_globals_def path_join_def startswith_def endswith_def)

lemma frames_fs_three_frames: "\<not> no_frames initial_globals fs_three_frames"
  by (simp add: no_frames_def pattern_initial_globals) (simp add: initial_globals_def fs_three_frames_def)

text \<open>
  Claim C6. When the source directory does not exist, or no file in it matches the
  frame pattern, \<^verbatim>\<open>create_video\<close> returns \<^verbatim>\<open>False\<close>, prints one diagnostic line,
  never launches the encoder, and leaves the file system as it was (so no output file
  is created), whatever the encoder would have done.
\<close>

theorem create_video_no_frames:
  assumes "no_frames g fs"
  shows "create_video env g fs =
           (Inr False,
            [Print (if \<not> path_exists fs (SAVE_DIR g)
                    then ''Directory '' @ SAVE_DIR g @ '' does not exist.''
                    else ''No image files found in '' @ SAVE_DIR g)],
            fs) \<and>
         encoder_runs (fst (snd (create_video env g fs))) = []"
  using assms
  by (auto simp: no_frames_def create_video_def encoder_runs_def Let_def)

theorem create_video_no_frames_witness:
  "no_frames initial_globals fs_no_frames \<and>
   create_video env_ok initial_globals fs_no_frames =
     (Inr False, [Print ''No image files found in output_images''], fs_no_frames) \<and>
   encoder_runs (fst (snd (create_video env_ok initial_globals fs_no_frames))) = []"
proof -
  have h: "no_frames initial_globals fs_no_frames"
    by (rule no_frames_fs_no_frames)
  have e: "path_exists fs_no_frames (SAVE_DIR initial_globals)"
    by (simp add: fs_no_frames_def initial_globals_def)
  have d: "SAVE_DIR initial_globals = ''output_images''"
    by (simp add: initial_globals_def)
  from create_video_no_frames [OF h, of env_ok] e d h show ?thesis
    by (simp add: encoder_runs_def)
qed




text \<open>
  Claim C8. The argument list handed to the encoder depends on the configuration
  only. Whatever the file system and the encoder are, a run of \<^verbatim>\<open>create_video\<close>
  launches the encoder once when it finds frames and not at all otherwise, and the
  argument list of the launch is made of the configuration alone: it holds the
  overwrite flag \<^verbatim>\<open>-y\<close>, the input pattern \<^verbatim>\<open>frame_%06d.jpg\<close> joined to the source
  directory, the frame rate (for input and output), the bitrate and the output name.
  So two runs with the same configuration that reach the encoder hand it the same
  list.
\<close>

theorem encoder_command_deterministic:
  "encoder_runs (fst (snd (create_video env1 g fs1))) =
     (if no_frames g fs1 then []
      else [[''ffmpeg'', ''-y'', ''-framerate'', str_int (FPS g),
             ''-i'', path_join (SAVE_DIR g) ''frame_%06d.jpg'',
             ''-b:v'', BITRATE g, ''-r'', str_int (FPS g), VIDEO_FILE g]]) \<and>
   (\<not> no_frames g fs1 \<and> \<not> no_frames g fs2 \<longrightarrow>
      encoder_runs (fst (snd (create_video env1 g fs1))) =
        encoder_runs (fst (snd (create_video env2 g fs2))))"
proof -
  have runs: "encoder_runs (fst (snd (create_video env g fs))) =
      (if no_frames g fs then [] else [ffmpeg_cmd g])" for env fs
    by (auto simp: create_video_def no_frames_def encoder_runs_def Let_def
        split: prod.splits proc_outcome.splits option.splits)
  show ?thesis
    using runs [of env1 fs1] runs [of env2 fs2]
    by (simp add: ffmpeg_cmd_def)
qed

theorem encoder_command_deterministic_witness:
  "\<not> no_frames initial_globals fs_three_frames \<and>
   encoder_runs (fst (snd (create_video env_ok initial_globals fs_three_frames))) =
     encoder_runs (fst (snd (create_video env_failing initial_globals fs_three_frames))) \<and>
   encoder_runs (fst (snd (create_video env_ok initial_globals fs_three_frames))) =
     [[''ffmpeg'', ''-y'', ''-framerate'', ''20'', ''-i'', ''output_images/frame_%06d.jpg'',
       ''-b:v'', ''5M'', ''-r'', ''20'', ''carla_output.mp4'']] \<and>
   no_frames initial_globals fs_no_frames \<and>
   encoder_runs (fst (snd (create_video env_ok initial_globals fs_no_frames))) = []"
proof -
  note f = frames_fs_three_frames
  note n = no_frames_fs_no_frames
  have s: "str_int (FPS initial_globals) = ''20''"
    by (simp add: initial_globals_def str_int_def nat_digits.simps digit_char_def)
  have p: "path_join (SAVE_DIR initial_globals) ''frame_%06d.jpg'' = ''output_images/frame_%06d.jpg''"
    by (simp add: initial_globals_def path_join_def startswith_def endswith_def)
  have c: "BITRATE initial_globals = ''5M'' \<and> VIDEO_FILE initial_globals = ''carla_output.mp4''"
    by (simp add: initial_globals_def)
  note launched = encoder_command_deterministic
    [where g = initial_globals and ?fs1.0 = fs_three_frames and ?fs2.0 = fs_three_frames
       and ?env1.0 = env_ok and ?env2.0 = env_failing]
  note idle = encoder_command_deterministic
    [where g = initial_globals and ?fs1.0 = fs_no_frames and ?fs2.0 = fs_no_frames
       and ?env1.0 = env_ok and ?env2.0 = env_ok]
  from launched f have
    "encoder_runs (fst (snd (create_video env_ok initial_globals fs_three_frames))) =
       encoder_runs (fst (snd (create_video env_failing initial_globals fs_three_frames)))"
    by blast
  moreover from launched f have
    "encoder_runs (fst (snd (create_video env_ok initial_globals fs_three_frames))) =
       [[''ffmpeg'', ''-y'', ''-framerate'', str_int (FPS initial_globals),
         ''-i'', path_join (SAVE_DIR initial_globals) ''frame_%06d.jpg'',
         ''-b:v'', BITRATE initial_globals, ''-r'', str_int (FPS initial_globals),
         VIDEO_FILE initial_globals]]"
    by (simp only: if_False simp_thms)
  moreover from idle n have
    "encoder_runs (fst (snd (create_video env_ok initial_globals fs_no_frames))) = []"
    by simp
  ultimately show ?thesis
    using f n by (simp add: s p c)
qed

text \<open>
  Claim C10. Whenever the wrapped \<^verbatim>\<open>create_video\<close> returns, with the bitrate and
  output name overridden in any way, \<^verbatim>\<open>create_video_with_bitrate\<close> returns the same
  Boolean and leaves the whole configuration, \<^verbatim>\<open>BITRATE\<close> and \<^verbatim>\<open>VIDEO_FILE\<close>
  included, equal to what it was before the call.
\<close>

theorem create_video_with_bitrate_restores:
  assumes "create_video env (override_globals bitrate output_name g) fs = (Inr success, out, fs')"
  shows "create_video_with_bitrate env bitrate output_name g fs = (Inr success, g, out, fs')"
  using assms
  by (simp add: create_video_with_bitrate_def override_globals_def Let_def)

theorem create_video_with_bitrate_restores_witness:
  "create_video env_missing (override_globals ''10M'' (Some ''high_quality.mp4'') initial_globals)
     fs_three_frames =
     (Inr False,
      [Print ''Found 3 images. Creating video...'',
       Run [''ffmpeg'', ''-y'', ''-framerate'', ''20'', ''-i'', ''output_images/frame_%06d.jpg'',
            ''-b:v'', ''10M'', ''-r'', ''20'', ''high_quality.mp4''],
       Print (cross_mark @ '' ffmpeg not found. Please install ffmpeg.'')],
      fs_three_frames) \<and>
   create_video_with_bitrate env_missing ''10M'' (Some ''high_quality.mp4'') initial_globals
     fs_three_frames =
     (Inr False, initial_globals,
      [Print ''Found 3 images. Creating video...'',
       Run [''ffmpeg'', ''-y'', ''-framerate'', ''20'', ''-i'', ''output_images/frame_%06d.jpg'',
            ''-b:v'', ''10M'', ''-r'', ''20'', ''high_quality.mp4''],
       Print (cross_mark @ '' ffmpeg not found. Please install ffmpeg.'')],
      fs_three_frames)"
proof -
  have h: "create_video env_missing (override_globals ''10M'' (Some ''high_quality.mp4'') initial_globals)
             fs_three_frames =
           (Inr False,
            [Print ''Found 3 images. Creating video...'',
             Run [''ffmpeg'', ''-y'', ''-framerate'', ''20'', ''-i'', ''output_images/frame_%06d.jpg'',
                  ''-b:v'', ''10M'', ''-r'', ''20'', ''high_quality.mp4''],
             Print (cross_mark @ '' ffmpeg not found. Please install ffmpeg.'')],
            fs_three_frames)"
    by (simp add: create_video_def override_globals_def truthy_def initial_globals_def
        fs_three_frames_def env_missing_def path_join_def startswith_def
        endswith_def ffmpeg_cmd_def str_int_def nat_digits.simps digit_char_def
        Let_def)
  from create_video_with_bitrate_restores [OF h] h show ?thesis
    by simp
qed

section \<open>Properties of the lock-step capture loop\<close>

lemma fold_on_image:
  "fold on_image imgs s = (if imgs = [] then s else s\<lparr>captured_image := Some (last imgs)\<rparr>)"
  by (induction imgs arbitrary: s) (simp_all add: on_image_def)

lemma tick_on_image:
  "tick env on_image s =
     (if frames_at env (clock s) = [] then s\<lparr>clock := Suc (clock s), trace := trace s @ [Tick]\<rparr>
      else s\<lparr>clock := Suc (clock s), trace := trace s @ [Tick],
              captured_image := Some (last (frames_at env (clock s)))\<rparr>)"
  by (simp add: tick_def fold_on_image emit_def)

lemma capture_iteration_empty:
  assumes "captured_image s = None" and "frames_at env (clock s) = []"
  shows "capture_iteration env dir target s = s\<lparr>clock := Suc (clock s), trace := trace s @ [Tick]\<rparr>"
  using assms by (simp add: capture_iteration_def tick_on_image drain_def)

lemma capture_iteration_frame:
  assumes "frames_at env (clock s) \<noteq> []"
  shows "capture_iteration env dir target s =
           s\<lparr>clock := Suc (clock s),
             trace := trace s @ [Tick, SaveToDisk (frame_file dir (frame_count s)) (last (frames_at env (clock s)))]
                        @ captured_note env target (frame_count s + 1),
             frame_count := frame_count s + 1, captured_image := None\<rparr>"
  using assms by (simp add: capture_iteration_def tick_on_image drain_def emit_def Let_def captured_note_def)

lemma capture_loop_starves:
  assumes "\<forall>t\<ge>clock s. frames_at env t = []" and "captured_image s = None"
    and "int_less (frame_count s) target"
  shows "capture_loop env dir target s = None"
proof (cases "capture_loop env dir target s")
  case None
  then show ?thesis .
next
  case (Some s')
  define starved where "starved = (\<lambda>(env::simulator) target (s::session).
      (\<forall>t\<ge>clock s. frames_at env t = []) \<and> captured_image s = None \<and> int_less (frame_count s) target)"
  have step: "\<not> starved env target s"
    if IH: "\<And>env dir target s y. loop env dir target s = Some y \<Longrightarrow> \<not> starved env target s"
      and eq: "(if int_less (frame_count s) target
                then loop env dir target (capture_iteration env dir target s) else Some s) = Some y"
    for loop env dir target s y
  proof
    assume a: "starved env target s"
    then have it: "capture_iteration env dir target s = s\<lparr>clock := Suc (clock s), trace := trace s @ [Tick]\<rparr>"
      by (simp add: starved_def capture_iteration_empty)
    from a eq have "loop env dir target (capture_iteration env dir target s) = Some y"
      by (simp add: starved_def)
    then have "\<not> starved env target (capture_iteration env dir target s)"
      by (rule IH)
    with a it show False
      by (simp add: starved_def)
  qed
  have "\<not> starved env target s"
    by (rule capture_loop.raw_induct [where P = "\<lambda>env dir target s y. \<not> starved env target s", OF step Some])
  with assms show ?thesis
    by (simp add: starved_def)
qed

lemma heap_capture_iteration:
  "heap (capture_iteration env dir target s) = heap s \<and>
   server_settings (capture_iteration env dir target s) = server_settings s"
  by (simp add: capture_iteration_def tick_on_image drain_def emit_def Let_def split: option.splits)

lemma capture_loop_keeps_settings:
  assumes "capture_loop env dir target s = Some s'"
  shows "heap s' = heap s \<and> server_settings s' = server_settings s"
proof -
  have step: "heap y = heap s \<and> server_settings y = server_settings s"
    if IH: "\<And>env dir target s y. loop env dir target s = Some y \<Longrightarrow>
              heap y = heap s \<and> server_settings y = server_settings s"
      and eq: "(if int_less (frame_count s) target
                then loop env dir target (capture_iteration env dir target s) else Some s) = Some y"
    for loop env dir target and s y :: session
  proof (cases "int_less (frame_count s) target")
    case True
    with eq have "loop env dir target (capture_iteration env dir target s) = Some y"
      by simp
    from IH [OF this] show ?thesis
      by (simp add: heap_capture_iteration)
  next
    case False
    with eq show ?thesis by simp
  qed
  show ?thesis
    by (rule capture_loop.raw_induct
          [where P = "\<lambda>env dir target s y. heap y = heap s \<and> server_settings y = server_settings s",
           OF step assms])
qed


lemma delivering_0 [simp]: "delivering env c 0 = []"
  by (simp add: delivering_def)

lemma delivering_Suc:
  "delivering env c (Suc T) =
     (if frames_at env c \<noteq> [] then [c] else []) @ delivering env (Suc c) T"
proof -
  have "[c..<c + Suc T] = c # [Suc c..<Suc c + T]"
    by (simp add: upt_conv_Cons del: upt_Suc)
  then show ?thesis
    by (simp add: delivering_def del: upt_Suc)
qed

lemma saved_files_Nil [simp]: "saved_files [] = []"
  by (simp add: saved_files_def)

lemma saved_files_Cons:
  "saved_files (e # evs) = (case e of SaveToDisk f img \<Rightarrow> [(f, img)] | _ \<Rightarrow> []) @ saved_files evs"
  by (simp add: saved_files_def)

lemma saved_files_append [simp]: "saved_files (xs @ ys) = saved_files xs @ saved_files ys"
  by (simp add: saved_files_def)

lemma saved_files_captured_note [simp]: "saved_files (captured_note env target n) = []"
  by (simp add: captured_note_def saved_files_Cons)

lemma lock_step_captured_note [simp]:
  "lock_step env c pending (captured_note env' target n @ evs) = lock_step env c pending evs"
  by (simp add: captured_note_def)

lemma capture_loop_general:
  assumes "captured_image s = None" and "frame_count s = int k" and "k \<le> N"
    and "N - k \<le> length (delivering env (clock s) T)"
  shows "\<exists>s' evs. capture_loop env dir (PyInt (int N)) s = Some s' \<and>
           frame_count s' = int N \<and> captured_image s' = None \<and> trace s' = trace s @ evs \<and>
           saved_files evs =
             map (\<lambda>(i, t). (frame_file dir (int i), last (frames_at env t)))
               (zip [k..<N] (delivering env (clock s) T)) \<and>
           lock_step env (clock s) None evs \<and>
           (k < N \<longrightarrow> (\<exists>evs'. evs = Tick # evs'))"
  using assms
proof (induction T arbitrary: s k)
  case 0
  then have "k = N" by simp
  with 0 have "capture_loop env dir (PyInt (int N)) s = Some s"
    by (subst capture_loop.simps) (simp add: int_less_def)
  with 0 \<open>k = N\<close> show ?case by simp
next
  case (Suc T)
  show ?case
  proof (cases "k = N")
    case True
    with Suc.prems have "capture_loop env dir (PyInt (int N)) s = Some s"
      by (subst capture_loop.simps) (simp add: int_less_def)
    with Suc.prems True show ?thesis by simp
  next
    case False
    with Suc.prems have less: "k < N" by simp
    let ?s1 = "capture_iteration env dir (PyInt (int N)) s"
    from less Suc.prems have unfold: "capture_loop env dir (PyInt (int N)) s = capture_loop env dir (PyInt (int N)) ?s1"
      by (subst capture_loop.simps) (simp add: int_less_def)
    show ?thesis
    proof (cases "frames_at env (clock s) = []")
      case True
      with Suc.prems have s1: "?s1 = s\<lparr>clock := Suc (clock s), trace := trace s @ [Tick]\<rparr>"
        by (simp add: capture_iteration_empty)
      from True Suc.prems have len: "N - k \<le> length (delivering env (clock ?s1) T)"
        by (simp add: delivering_Suc s1)
      from Suc.prems s1 have "captured_image ?s1 = None" "frame_count ?s1 = int k"
        by simp_all
      from Suc.IH [OF this \<open>k \<le> N\<close> len] obtain s' evs where
        r: "capture_loop env dir (PyInt (int N)) ?s1 = Some s'" "frame_count s' = int N"
           "captured_image s' = None" "trace s' = trace ?s1 @ evs"
           "saved_files evs =
              map (\<lambda>(i, t). (frame_file dir (int i), last (frames_at env t)))
                (zip [k..<N] (delivering env (clock ?s1) T))"
           "lock_step env (clock ?s1) None evs"
        by blast
      have "trace s' = trace s @ (Tick # evs)"
        using r(4) s1 by simp
      moreover have "saved_files (Tick # evs) =
          map (\<lambda>(i, t). (frame_file dir (int i), last (frames_at env t)))
            (zip [k..<N] (delivering env (clock s) (Suc T)))"
        using r(5) True s1 by (simp add: saved_files_Cons delivering_Suc)
      moreover have "lock_step env (clock s) None (Tick # evs)"
        using r(6) True s1 by simp
      ultimately show ?thesis
        using unfold r(1,2,3) by (intro exI [of _ s'] exI [of _ "Tick # evs"]) simp
    next
      case False
      let ?save = "SaveToDisk (frame_file dir (int k)) (last (frames_at env (clock s)))"
      let ?note = "captured_note env (PyInt (int N)) (int k + 1)"
      from False Suc.prems have s1: "?s1 =
          s\<lparr>clock := Suc (clock s), trace := trace s @ [Tick, ?save] @ ?note,
            frame_count := int k + 1, captured_image := None\<rparr>"
        by (simp add: capture_iteration_frame)
      from False Suc.prems less have len: "N - Suc k \<le> length (delivering env (clock ?s1) T)"
        by (simp add: delivering_Suc s1)
      from s1 have "captured_image ?s1 = None" "frame_count ?s1 = int (Suc k)"
        by simp_all
      moreover from less have "Suc k \<le> N" by simp
      ultimately obtain s' evs where
        r: "capture_loop env dir (PyInt (int N)) ?s1 = Some s'" "frame_count s' = int N"
           "captured_image s' = None" "trace s' = trace ?s1 @ evs"
           "saved_files evs =
              map (\<lambda>(i, t). (frame_file dir (int i), last (frames_at env t)))
                (zip [Suc k..<N] (delivering env (clock ?s1) T))"
           "lock_step env (clock ?s1) None evs"
        using Suc.IH [of ?s1 "Suc k"] len by blast
      have "trace s' = trace s @ ([Tick, ?save] @ ?note @ evs)"
        using r(4) s1 by simp
      moreover have "saved_files ([Tick, ?save] @ ?note @ evs) =
          map (\<lambda>(i, t). (frame_file dir (int i), last (frames_at env t)))
            (zip [k..<N] (delivering env (clock s) (Suc T)))"
        using r(5) False s1 less by (simp add: saved_files_Cons delivering_Suc upt_conv_Cons)
      moreover have "lock_step env (clock s) None ([Tick, ?save] @ ?note @ evs)"
        using r(6) False s1 by simp
      ultimately show ?thesis
        using unfold r(1,2,3) by (intro exI [of _ s'] exI [of _ "[Tick, ?save] @ ?note @ evs"]) simp
    qed
  qed
qed

subsection \<open>Frame file names are pairwise different\<close>

lemma of_char_digit_char: "d < 10 \<Longrightarrow> of_char (digit_char d) = (48 + d :: nat)"
proof -
  assume "d < 10"
  then have "d \<in> {0, 1, 2, 3, 4, 5, 6, 7, 8, 9}"
    by auto
  then show ?thesis
    by (auto simp: digit_char_def)
qed

lemma digits_value_snoc: "digits_value (cs @ [c]) = 10 * digits_value cs + (of_char c - 48)"
  by (simp add: digits_value_def)

lemma digits_value_nat_digits: "digits_value (nat_digits n) = n"
proof (induction n rule: nat_digits.induct)
  case (1 n)
  show ?case
  proof (cases "n < 10")
    case True
    then show ?thesis
      by (subst nat_digits.simps) (simp add: digits_value_def of_char_digit_char)
  next
    case False
    with 1 have "digits_value (nat_digits (n div 10)) = n div 10"
      by simp
    with False show ?thesis
      by (subst nat_digits.simps) (simp add: digits_value_snoc of_char_digit_char)
  qed
qed

lemma digits_value_zero_fill: "digits_value (zero_fill w cs) = digits_value cs"
proof -
  have "foldl (\<lambda>a c. 10 * a + (of_char c - 48)) (0::nat) (replicate k CHR ''0'') = 0" for k
    by (induction k) simp_all
  then show ?thesis
    by (simp add: digits_value_def zero_fill_def)
qed

lemma format_06d_inj: "format_06d (int i) = format_06d (int j) \<Longrightarrow> i = j"
proof -
  assume "format_06d (int i) = format_06d (int j)"
  then have "digits_value (zero_fill 6 (nat_digits i)) = digits_value (zero_fill 6 (nat_digits j))"
    by (simp add: format_06d_def)
  then show "i = j"
    by (simp add: digits_value_zero_fill digits_value_nat_digits)
qed

lemma frame_file_inj: "frame_file dir (int i) = frame_file dir (int j) \<Longrightarrow> i = j"
  by (rule format_06d_inj) (simp add: frame_file_def path_join_def startswith_def split: if_splits)

lemma distinct_frame_files: "distinct (map (\<lambda>i. frame_file dir (int i)) [0..<N])"
  by (simp add: distinct_map inj_on_def) (blast dest: frame_file_inj)



lemma capture_loop_returns:
  assumes "frame_count s = 0" and "captured_image s = None"
    and "N \<le> length (delivering env (clock s) T)"
  shows "\<exists>s'. capture_loop env dir (PyInt (int N)) s = Some s'"
proof -
  from assms have "captured_image s = None" "frame_count s = int 0" "0 \<le> N"
    "N - 0 \<le> length (delivering env (clock s) T)"
    by simp_all
  from capture_loop_general [OF this, of dir] show ?thesis
    by blast
qed

subsection \<open>Exactly N frames\<close>

text \<open>
  Claim C2, with the condition under which the loop ends. Let the loop start with the
  counter at zero and the holder empty, and let the camera deliver a buffer during at
  least \<open>N\<close> of the next \<open>T\<close> steps, for some \<open>T\<close> (every step, for
  instance). Then the loop returns with the counter at \<open>N\<close>; the files it has
  saved are, in this order, \<^verbatim>\<open>frame_000000.jpg\<close> up to the name of \<open>N - 1\<close>
  inside the directory, without gap and pairwise different; the buffer saved in the
  \<open>i\<close>-th file is the last one delivered during the \<open>i\<close>-th delivering step;
  and the trace keeps lock-step with the camera: the buffer of a step is saved before
  the next step is requested, and nothing else is saved.
\<close>

theorem capture_loop_writes_frames:
  assumes "frame_count s = 0" and "captured_image s = None"
    and "N \<le> length (delivering env (clock s) T)"
  shows "\<exists>s' evs. capture_loop env dir (PyInt (int N)) s = Some s' \<and>
           frame_count s' = int N \<and> trace s' = trace s @ evs \<and>
           map fst (saved_files evs) = map (\<lambda>i. frame_file dir (int i)) [0..<N] \<and>
           distinct (map fst (saved_files evs)) \<and>
           map snd (saved_files evs) =
             map (\<lambda>t. last (frames_at env t)) (take N (delivering env (clock s) T)) \<and>
           lock_step env (clock s) None evs"
proof -
  from assms have "captured_image s = None" "frame_count s = int 0" "0 \<le> N"
    "N - 0 \<le> length (delivering env (clock s) T)"
    by simp_all
  from capture_loop_general [OF this, of dir] obtain s' evs where
    r: "capture_loop env dir (PyInt (int N)) s = Some s'" "frame_count s' = int N"
       "trace s' = trace s @ evs"
       "saved_files evs =
          map (\<lambda>(i, t). (frame_file dir (int i), last (frames_at env t)))
            (zip [0..<N] (delivering env (clock s) T))"
       "lock_step env (clock s) None evs"
    by blast
  let ?dl = "delivering env (clock s) T"
  from assms(3) have m: "min N (length ?dl) = N"
    by simp
  have names: "map fst (saved_files evs) = map (\<lambda>i. frame_file dir (int i)) [0..<N]"
  proof -
    have "map fst (saved_files evs) = map (\<lambda>i. frame_file dir (int i)) (map fst (zip [0..<N] ?dl))"
      by (simp add: r(4) case_prod_beta comp_def)
    also have "map fst (zip [0..<N] ?dl) = [0..<N]"
      by (simp add: map_fst_zip_take m)
    finally show ?thesis .
  qed
  have images: "map snd (saved_files evs) = map (\<lambda>t. last (frames_at env t)) (take N ?dl)"
  proof -
    have "map snd (saved_files evs) = map (\<lambda>t. last (frames_at env t)) (map snd (zip [0..<N] ?dl))"
      by (simp add: r(4) case_prod_beta comp_def)
    also have "map snd (zip [0..<N] ?dl) = take N ?dl"
      by (simp add: map_snd_zip_take m)
    finally show ?thesis .
  qed
  from r(1,2,3,5) names images show ?thesis
    by (intro exI [of _ s'] exI [of _ evs]) (simp add: distinct_frame_files)
qed

theorem capture_loop_writes_frames_witness:
  "frame_count session0 = 0 \<and> captured_image session0 = None \<and>
   2 \<le> length (delivering sim_gappy (clock session0) 3) \<and>
   (\<exists>s' evs. capture_loop sim_gappy ''out'' (PyInt 2) session0 = Some s' \<and>
      frame_count s' = 2 \<and> trace s' = trace session0 @ evs \<and>
      map fst (saved_files evs) = [''out/frame_000000.jpg'', ''out/frame_000001.jpg''] \<and>
      distinct (map fst (saved_files evs)) \<and>
      map snd (saved_files evs) = [0, 2] \<and> lock_step sim_gappy (clock session0) None evs)"
proof -
  have h1: "frame_count session0 = 0" and h2: "captured_image session0 = None"
    by (simp_all add: session0_def)
  have three: "[0..<3] = [0, 1, 2]"
    by (simp add: upt_rec)
  have d: "delivering sim_gappy (clock session0) 3 = [0, 2]"
    by (simp add: delivering_def session0_def sim_gappy_def three)
  then have h3: "2 \<le> length (delivering sim_gappy (clock session0) 3)"
    by simp
  have two: "[0..<2] = [0, 1]"
    by (simp add: upt_rec)
  have n0: "frame_file ''out'' 0 = ''out/frame_000000.jpg''"
    by code_simp
  have n1: "frame_file ''out'' 1 = ''out/frame_000001.jpg''"
    by code_simp
  have names: "map (\<lambda>i. frame_file ''out'' (int i)) [0..<2] = [''out/frame_000000.jpg'', ''out/frame_000001.jpg'']"
    by (simp add: two n0 n1)
  have images: "map (\<lambda>t. last (frames_at sim_gappy t)) (take 2 (delivering sim_gappy (clock session0) 3)) = [0, 2]"
    unfolding d by (simp add: sim_gappy_def)
  from capture_loop_writes_frames [OF h1 h2 h3, of "''out''"] h1 h2 h3 names images
  show ?thesis
    by simp
qed

text \<open>
  Without the condition the loop need not end: with a camera that never delivers, a
  request for one frame steps the simulation for ever.
\<close>

theorem capture_loop_starved_example:
  "capture_loop sim_silent ''output_images'' (PyInt 1) session0 = None"
  by (rule capture_loop_starves) (simp_all add: sim_silent_def session0_def int_less_def)

subsection \<open>A step without a buffer\<close>

text \<open>
  Claim C3. In one iteration of the loop: when the holder is empty after the step
  returns, the counter and the saved files stay as they are and the iteration has
  done nothing but the step; the counter advances, and a file is saved, exactly when
  the holder is not empty after the step; the holder is empty after every iteration.
  An empty step does not stop the loop: when the counter is below the target and the
  camera delivers often enough later on, the loop takes a further step right after
  the empty one, with nothing saved in between, and goes on until it returns with the
  counter at the target. When no buffer ever arrives the loop never returns.
\<close>

theorem empty_tick_reticks:
  "(captured_image (tick env on_image s) = None \<longrightarrow>
      frame_count (capture_iteration env dir target s) = frame_count s \<and>
      saved_files (trace (capture_iteration env dir target s)) = saved_files (trace s) \<and>
      trace (capture_iteration env dir target s) = trace s @ [Tick]) \<and>
   (captured_image (tick env on_image s) \<noteq> None \<longleftrightarrow>
      frame_count (capture_iteration env dir target s) = frame_count s + 1) \<and>
   (captured_image (tick env on_image s) \<noteq> None \<longleftrightarrow>
      length (saved_files (trace (capture_iteration env dir target s))) =
        length (saved_files (trace s)) + 1) \<and>
   captured_image (capture_iteration env dir target s) = None \<and>
   (captured_image (tick env on_image s) = None \<and> frame_count s = int k \<and> k < N \<and>
    N - k \<le> length (delivering env (Suc (clock s)) T) \<longrightarrow>
      (\<exists>s' evs. capture_loop env dir (PyInt (int N)) s = Some s' \<and>
         frame_count s' = int N \<and> trace s' = trace s @ Tick # Tick # evs \<and>
         length (saved_files (Tick # Tick # evs)) = N - k)) \<and>
   ((\<forall>t. frames_at env t = []) \<and> captured_image s = None \<and> int_less (frame_count s) target \<longrightarrow>
      capture_loop env dir target s = None)"
proof -
  have a: "captured_image (tick env on_image s) = None \<Longrightarrow>
      capture_iteration env dir target s = s\<lparr>clock := Suc (clock s), trace := trace s @ [Tick]\<rparr>"
    for target
    by (simp add: capture_iteration_def tick_on_image drain_def split: if_splits)
  have b: "captured_image (tick env on_image s) = Some img \<Longrightarrow>
      frame_count (capture_iteration env dir target s) = frame_count s + 1 \<and>
      saved_files (trace (capture_iteration env dir target s)) =
        saved_files (trace s) @ [(frame_file dir (frame_count s), img)]" for img
    by (simp add: capture_iteration_def tick_on_image drain_def emit_def Let_def saved_files_Cons
        split: if_splits)
  have c: "captured_image (capture_iteration env dir target s) = None"
    by (simp add: capture_iteration_def drain_def emit_def Let_def split: option.splits)
  have e: "(\<forall>t. frames_at env t = []) \<and> captured_image s = None \<and> int_less (frame_count s) target \<longrightarrow>
      capture_loop env dir target s = None"
    by (simp add: capture_loop_starves)
  have d: "\<exists>s' evs. capture_loop env dir (PyInt (int N)) s = Some s' \<and>
         frame_count s' = int N \<and> trace s' = trace s @ Tick # Tick # evs \<and>
         length (saved_files (Tick # Tick # evs)) = N - k"
    if empty: "captured_image (tick env on_image s) = None" and k: "frame_count s = int k" "k < N"
      and later: "N - k \<le> length (delivering env (Suc (clock s)) T)"
  proof -
    let ?s1 = "capture_iteration env dir (PyInt (int N)) s"
    from a [OF empty] have s1: "?s1 = s\<lparr>clock := Suc (clock s), trace := trace s @ [Tick]\<rparr>" .
    from k have unfold: "capture_loop env dir (PyInt (int N)) s = capture_loop env dir (PyInt (int N)) ?s1"
      by (subst capture_loop.simps) (simp add: int_less_def)
    from c [of ] have h1: "captured_image ?s1 = None"
      by (simp add: capture_iteration_def drain_def emit_def Let_def split: option.splits)
    from s1 k have h2: "frame_count ?s1 = int k"
      by simp
    from k have h3: "k \<le> N"
      by simp
    from later s1 have h4: "N - k \<le> length (delivering env (clock ?s1) T)"
      by simp
    from capture_loop_general [OF h1 h2 h3 h4, of dir] k(2) obtain s' evs where
      r: "capture_loop env dir (PyInt (int N)) ?s1 = Some s'" "frame_count s' = int N"
         "trace s' = trace ?s1 @ Tick # evs"
         "saved_files (Tick # evs) =
            map (\<lambda>(i, t). (frame_file dir (int i), last (frames_at env t)))
              (zip [k..<N] (delivering env (clock ?s1) T))"
      by blast
    from r(4) h4 have "length (saved_files (Tick # Tick # evs)) = N - k"
      by (simp add: saved_files_Cons)
    moreover from r(3) s1 have "trace s' = trace s @ Tick # Tick # evs"
      by simp
    ultimately show ?thesis
      using unfold r(1,2) by (intro exI [of _ s'] exI [of _ evs]) simp
  qed
  show ?thesis
  proof (cases "captured_image (tick env on_image s)")
    case None
    with a [OF None, of target] c d e show ?thesis
      by (simp add: saved_files_Cons)
  next
    case (Some img)
    with b [OF Some] c e show ?thesis
      by simp
  qed
qed

text \<open>
  A camera that delivers nothing during step 0 and one buffer in every later step:
  asked for one frame, the loop steps twice and then saves the buffer of step 1 as
  frame 0.
\<close>

theorem empty_tick_reticks_witness:
  "captured_image (tick sim_late on_image session0) = None \<and> frame_count session0 = int 0 \<and>
   1 - 0 \<le> length (delivering sim_late (Suc (clock session0)) 1) \<and>
   frame_count (capture_iteration sim_late ''out'' (PyInt 1) session0) = frame_count session0 \<and>
   trace (capture_iteration sim_late ''out'' (PyInt 1) session0) = trace session0 @ [Tick] \<and>
   (\<exists>s' evs. capture_loop sim_late ''out'' (PyInt 1) session0 = Some s' \<and>
      frame_count s' = 1 \<and> trace s' = Tick # Tick # evs \<and>
      length (saved_files (Tick # Tick # evs)) = 1) \<and>
   map_option trace (capture_loop sim_late ''out'' (PyInt 1) session0) =
     Some [Tick, Tick, SaveToDisk ''out/frame_000000.jpg'' 1] \<and>
   (\<forall>t. frames_at sim_silent t = []) \<and> captured_image session0 = None \<and>
   int_less (frame_count session0) (PyInt 1) \<and>
   capture_loop sim_silent ''out'' (PyInt 1) session0 = None \<and>
   captured_image (tick sim_steady on_image session0) \<noteq> None \<and>
   frame_count (capture_iteration sim_steady ''out'' (PyInt 1) session0) = frame_count session0 + 1 \<and>
   length (saved_files (trace (capture_iteration sim_steady ''out'' (PyInt 1) session0))) =
     length (saved_files (trace session0)) + 1"
proof -
  have a: "captured_image (tick sim_late on_image session0) = None"
    by (simp add: tick_on_image sim_late_def session0_def)
  have k: "frame_count session0 = int 0"
    by (simp add: session0_def)
  have one: "(0::nat) < 1"
    by simp
  have later: "1 - 0 \<le> length (delivering sim_late (Suc (clock session0)) 1)"
    by (simp add: delivering_def sim_late_def session0_def)
  have b: "int_less (frame_count session0) (PyInt 1)"
    by (simp add: int_less_def session0_def)
  have c: "\<forall>t. frames_at sim_silent t = []"
    by (simp add: sim_silent_def)
  have d: "captured_image session0 = None"
    by (simp add: session0_def)
  have e: "captured_image (tick sim_steady on_image session0) \<noteq> None"
    by (simp add: tick_on_image sim_steady_def session0_def)
  have t0: "trace session0 = []"
    by (simp add: session0_def)
  note late = empty_tick_reticks
    [where env = sim_late and s = session0 and dir = "''out''" and target = "PyInt 1"
       and k = 0 and N = 1 and T = 1]
  note silent = empty_tick_reticks
    [where env = sim_silent and s = session0 and dir = "''out''" and target = "PyInt 1"]
  note steady = empty_tick_reticks
    [where env = sim_steady and s = session0 and dir = "''out''" and target = "PyInt 1"]
  from late a have iteration:
    "frame_count (capture_iteration sim_late ''out'' (PyInt 1) session0) = frame_count session0"
    "trace (capture_iteration sim_late ''out'' (PyInt 1) session0) = trace session0 @ [Tick]"
    by blast+
  from late a k one later have
    "\<exists>s' evs. capture_loop sim_late ''out'' (PyInt (int 1)) session0 = Some s' \<and>
       frame_count s' = int 1 \<and> trace s' = trace session0 @ Tick # Tick # evs \<and>
       length (saved_files (Tick # Tick # evs)) = 1 - 0"
    by blast
  then have run: "\<exists>s' evs. capture_loop sim_late ''out'' (PyInt 1) session0 = Some s' \<and>
       frame_count s' = 1 \<and> trace s' = Tick # Tick # evs \<and>
       length (saved_files (Tick # Tick # evs)) = 1"
    by (simp add: t0)
  have n0: "frame_file ''out'' 0 = ''out/frame_000000.jpg''"
    by code_simp
  have i1: "capture_iteration sim_late ''out'' (PyInt 1) session0 =
      session0\<lparr>clock := Suc 0, trace := [Tick]\<rparr>"
    by (subst capture_iteration_empty) (simp_all add: sim_late_def session0_def)
  have i2: "capture_iteration sim_late ''out'' (PyInt 1) (session0\<lparr>clock := Suc 0, trace := [Tick]\<rparr>) =
      session0\<lparr>clock := Suc (Suc 0), trace := [Tick, Tick, SaveToDisk ''out/frame_000000.jpg'' 1],
        frame_count := 1, captured_image := None\<rparr>"
    by (subst capture_iteration_frame)
      (simp_all add: sim_late_def session0_def captured_note_def n0)
  have fc: "frame_count session0 = 0"
    by (simp add: session0_def)
  have l0: "capture_loop sim_late ''out'' (PyInt 1) session0 =
      capture_loop sim_late ''out'' (PyInt 1) (session0\<lparr>clock := Suc 0, trace := [Tick]\<rparr>)"
    by (subst capture_loop.simps) (simp add: int_less_def fc i1)
  have l1: "capture_loop sim_late ''out'' (PyInt 1) (session0\<lparr>clock := Suc 0, trace := [Tick]\<rparr>) =
      capture_loop sim_late ''out'' (PyInt 1)
        (session0\<lparr>clock := Suc (Suc 0), trace := [Tick, Tick, SaveToDisk ''out/frame_000000.jpg'' 1],
           frame_count := 1, captured_image := None\<rparr>)"
    by (subst capture_loop.simps) (simp add: int_less_def fc i2)
  have l2: "capture_loop sim_late ''out'' (PyInt 1)
        (session0\<lparr>clock := Suc (Suc 0), trace := [Tick, Tick, SaveToDisk ''out/frame_000000.jpg'' 1],
           frame_count := 1, captured_image := None\<rparr>) =
      Some (session0\<lparr>clock := Suc (Suc 0), trace := [Tick, Tick, SaveToDisk ''out/frame_000000.jpg'' 1],
           frame_count := 1, captured_image := None\<rparr>)"
    by (subst capture_loop.simps) (simp add: int_less_def)
  have explicit: "map_option trace (capture_loop sim_late ''out'' (PyInt 1) session0) =
      Some [Tick, Tick, SaveToDisk ''out/frame_000000.jpg'' 1]"
    unfolding l0 l1 l2 by simp
  from silent b c d have starved: "capture_loop sim_silent ''out'' (PyInt 1) session0 = None"
    by blast
  from steady e have advance:
    "frame_count (capture_iteration sim_steady ''out'' (PyInt 1) session0) = frame_count session0 + 1"
    "length (saved_files (trace (capture_iteration sim_steady ''out'' (PyInt 1) session0))) =
       length (saved_files (trace session0)) + 1"
    by blast+
  from a k later iteration run explicit b c d starved e advance show ?thesis
    by blast
qed

section \<open>Properties of the session settings\<close>

text \<open>
  The lock-step loop leaves the client's settings objects and the server's settings
  alone (shown with the loop's lemmas above); so do the steps that \<^verbatim>\<open>run_replay\<close>
  takes before it calls the capture function.
\<close>

lemma fold_no_callback [simp]: "fold no_callback imgs w = w"
  by (induction imgs) (simp_all add: no_callback_def)

lemma heap_tick_no_callback [simp]: "heap (tick env no_callback w) = heap w"
  by (simp add: tick_def emit_def)

lemma heap_ticks_no_callback [simp]: "heap (fold (\<lambda>_. tick env no_callback) xs w) = heap w"
  by (induction xs arbitrary: w) simp_all

lemma frame_count_ticks_no_callback [simp]:
  "frame_count (fold (\<lambda>_. tick env no_callback) xs w) = frame_count w"
  by (induction xs arbitrary: w) simp_all

lemma captured_image_tick_no_callback [simp]:
  "captured_image (tick env no_callback w) = captured_image w"
  by (simp add: tick_def emit_def)

lemma captured_image_ticks_no_callback [simp]:
  "captured_image (fold (\<lambda>_. tick env no_callback) xs w) = captured_image w"
  by (induction xs arbitrary: w) simp_all

lemma delivering_steady: "delivering sim_steady c T = [c..<c + T]"
  by (simp add: delivering_def sim_steady_def)

subsection \<open>The recorder\<close>

lemma main_returns:
  assumes "spawn_actor env ''vehicle.tesla.model3'' (clock s0) = Inr vehicle"
    and "spawn_actor env ''sensor.camera.rgb'' (clock s0) = Inr cam"
    and "100 \<le> length (delivering env (clock s0) T)"
  shows "\<exists>s'. main env s0 = Some (None, s')"
proof -
  have loop: "\<exists>s8. capture_loop env RECORD_SAVE_DIR (PyInt (RECORD_TIME * RECORD_FPS)) s = Some s8"
    if "frame_count s = 0" and "captured_image s = None" and "clock s = clock s0" for s
  proof -
    from assms(3) that(3) have "100 \<le> length (delivering env (clock s) T)"
      by simp
    from capture_loop_returns [OF that(1) that(2) this, of RECORD_SAVE_DIR]
    show ?thesis
      by (simp add: RECORD_TIME_def RECORD_FPS_def)
  qed
  have clock_emit: "clock (emit e w) = clock w" for e and w :: session
    by (simp add: emit_def)
  have ci_emit: "captured_image (emit e w) = captured_image w" for e and w :: session
    by (simp add: emit_def)
  have clock_setup: "clock (apply_settings r2
      (set_fixed_delta_seconds r2 d (set_synchronous_mode r2 b (snd (get_settings (snd (get_settings s0))))))) = clock s0"
    for r2 d b
    by (simp add: apply_settings_def set_fixed_delta_seconds_def set_synchronous_mode_def
        get_settings_def emit_def)
  show ?thesis
    using assms(1,2)
    by (simp add: main_def SYNCHRONOUS_MODE_def Let_def split_beta clock_emit clock_setup)
      (rule loop, simp_all add: clock_emit ci_emit clock_setup)
qed

lemma main_spawn_failure:
  assumes "spawn_actor env ''vehicle.tesla.model3'' (clock s0) = Inl e"
  shows "\<exists>s'. main env s0 = Some (Some e, s') \<and> server_settings s' = mutated (server_settings s0)"
  using assms
  by (simp add: main_def SYNCHRONOUS_MODE_def Let_def get_settings_def emit_def mutated_def
      apply_settings_def set_fixed_delta_seconds_def set_synchronous_mode_def RECORD_FPS_def)

subsection \<open>The replay driver\<close>

lemma clock_tick_no_callback [simp]: "clock (tick env no_callback w) = Suc (clock w)"
  by (simp add: tick_def emit_def)

lemma clock_ticks_no_callback [simp]:
  "clock (fold (\<lambda>_. tick env no_callback) xs w) = clock w + length xs"
  by (induction xs arbitrary: w) simp_all

lemma capture_frames_returns:
  assumes "spawn_actor env ''sensor.camera.rgb'' (clock s) = Inr cam"
    and "frame_count s = 0" and "captured_image s = None"
    and "N \<le> length (delivering env (clock s) T)"
  shows "\<exists>s'. capture_frames env dir (PyInt (int N)) True s = Some (None, s')"
proof -
  let ?s4 = "emit (Print (''Capturing '' @ str_number env (PyInt (int N)) @ '' frames at 20 FPS to: '' @ dir))
      (emit (Listen cam)
        (emit (Spawn ''sensor.camera.rgb'') s
           \<lparr>camera := Some cam, start_time := Some (wall_time env (clock s))\<rparr>))"
  have "frame_count ?s4 = 0" "captured_image ?s4 = None" "N \<le> length (delivering env (clock ?s4) T)"
    using assms(2,3,4) by (simp_all add: emit_def)
  from capture_loop_returns [OF this, of dir] obtain s' where
    "capture_loop env dir (PyInt (int N)) ?s4 = Some s'"
    by blast
  with assms(1) show ?thesis
    by (simp add: capture_frames_def create_camera_def Let_def emit_def)
qed

lemma capture_frames_keeps_heap:
  assumes "capture_frames env dir target True s = Some (r, s')"
  shows "heap s' = heap s"
  using assms
  by (auto simp: capture_frames_def create_camera_def Let_def emit_def
      split: sum.splits dest!: capture_loop_keeps_settings)

lemma run_replay_returns:
  fixes w :: session
  assumes "path_exists fs (abspath env log_file)"
    and "replay_file env (abspath env log_file) = None"
    and cf: "\<And>w1. frame_count w1 = frame_count w \<Longrightarrow> captured_image w1 = captured_image w \<Longrightarrow>
               clock w1 = clock w + 10 \<Longrightarrow>
               \<exists>w2. capture_func (PyInt (frames_for env duration)) True w1 = Some (None, w2)"
  shows "\<exists>w'. run_replay env fs log_file capture_func duration True w = Some (None, w')"
proof -
  let ?w6 = "fold (\<lambda>_. tick env no_callback) [0..<10]
      (emit (Print ''Waiting for replay to initialize...'')
        (emit (ReplayFile (abspath env log_file) 0 0 0)
          (emit (Print (''Using SYNCHRONOUS mode - exact '' @ str_int (frames_for env duration) @ '' frames''))
            (apply_settings (next_ref w)
              (set_fixed_delta_seconds (next_ref w) (Some (1 / 20))
                (set_synchronous_mode (next_ref w) True
                  (snd (get_settings
                     (emit (Print (''Starting replay: '' @ basename (abspath env log_file))) w)))))))))"
  have "frame_count ?w6 = frame_count w" "captured_image ?w6 = captured_image w" "clock ?w6 = clock w + 10"
    by (simp_all add: emit_def apply_settings_def set_fixed_delta_seconds_def
        set_synchronous_mode_def get_settings_def)
  from cf [OF this] obtain w7 where
    "capture_func (PyInt (frames_for env duration)) True ?w6 = Some (None, w7)"
    by blast
  with assms(1,2) show ?thesis
    by (simp add: run_replay_def Let_def get_settings_def emit_def)
qed

text \<open>
  In lock-step mode, whenever \<^verbatim>\<open>run_replay\<close> gets past the replay request and the
  capture function gives control back (by returning or by raising) without touching
  the settings object, the settings that \<^verbatim>\<open>run_replay\<close> leaves on the server are
  the modified ones: \<^verbatim>\<open>original_settings\<close> is the object that was modified.
\<close>

lemma run_replay_sync_final_settings:
  assumes run: "run_replay env fs log_file capture_func duration True w = Some (raised, w')"
    and log: "path_exists fs (abspath env log_file)"
    and replay: "replay_file env (abspath env log_file) = None"
    and keeps: "\<And>target w1 r w2. capture_func target True w1 = Some (r, w2) \<Longrightarrow> heap w2 = heap w1"
  shows "server_settings w' =
           (server_settings w)\<lparr>synchronous_mode := True, fixed_delta_seconds := Some (1 / 20)\<rparr>"
  using run log replay
  by (auto simp: run_replay_def get_settings_def apply_settings_def
      set_synchronous_mode_def set_fixed_delta_seconds_def emit_def Let_def
      split: option.splits dest!: keeps)

subsection \<open>Restoring the settings\<close>

text \<open>
  Claim C1, for what the code does by design. Whenever the recorder's \<^verbatim>\<open>main\<close>
  returns normally, the server's settings are those that were in force before
  \<^verbatim>\<open>main\<close> changed them.
\<close>

theorem main_restores_settings:
  assumes "main env s0 = Some (None, s')"
  shows "server_settings s' = server_settings s0"
  using assms
  by (auto simp: main_def SYNCHRONOUS_MODE_def get_settings_def apply_settings_def
      set_synchronous_mode_def set_fixed_delta_seconds_def emit_def Let_def
      split: sum.splits dest!: capture_loop_keeps_settings)

theorem main_restores_settings_witness:
  "main sim_steady session0 \<noteq> None \<and> map_option fst (main sim_steady session0) = Some None \<and>
   map_option (server_settings \<circ> snd) (main sim_steady session0) = Some (server_settings session0)"
proof -
  have "100 \<le> length (delivering sim_steady (clock session0) 100)"
    by (simp add: delivering_steady)
  from main_returns [OF _ _ this, of 1 1] obtain s' where
    r: "main sim_steady session0 = Some (None, s')"
    by (auto simp: sim_steady_def)
  from main_restores_settings [OF r] r show ?thesis
    by simp
qed

text \<open>
  The claim as it stands fails on two runs from a free-running session. First,
  \<^verbatim>\<open>main\<close> has no \<^verbatim>\<open>try\<close>: when the spawn of the vehicle raises, the
  exception leaves \<^verbatim>\<open>main\<close> with the server in lock-step mode. Second,
  \<^verbatim>\<open>run_replay\<close> in lock-step mode with an existing log and the camera capture
  function returns normally, and the server is still in lock-step mode afterwards.
\<close>

theorem settings_left_synchronous:
  "map_option fst (main sim_crowded session0) =
     Some (Some (RuntimeError ''Spawn failed because of collision at spawn position'')) \<and>
   map_option (server_settings \<circ> snd) (main sim_crowded session0) =
     Some \<lparr>synchronous_mode = True, fixed_delta_seconds = Some (1 / 20)\<rparr> \<and>
   map_option fst
     (run_replay sim_steady fs_log ''recording.log'' (capture_frames sim_steady ''/data/replay_output'')
        (1 / 10) True session0) = Some None \<and>
   map_option (server_settings \<circ> snd)
     (run_replay sim_steady fs_log ''recording.log'' (capture_frames sim_steady ''/data/replay_output'')
        (1 / 10) True session0) =
     Some \<lparr>synchronous_mode = True, fixed_delta_seconds = Some (1 / 20)\<rparr> \<and>
   server_settings session0 = \<lparr>synchronous_mode = False, fixed_delta_seconds = None\<rparr>"
proof -
  have "spawn_actor sim_crowded ''vehicle.tesla.model3'' (clock session0) =
          Inl (RuntimeError ''Spawn failed because of collision at spawn position'')"
    by (simp add: sim_crowded_def)
  from main_spawn_failure [OF this] obtain s' where
    m: "main sim_crowded session0 =
          Some (Some (RuntimeError ''Spawn failed because of collision at spawn position''), s')"
       "server_settings s' = mutated (server_settings session0)"
    by blast
  have log: "path_exists fs_log (abspath sim_steady ''recording.log'')"
    and replay: "replay_file sim_steady (abspath sim_steady ''recording.log'') = None"
    by (simp_all add: fs_log_def sim_steady_def)
  have frames: "frames_for sim_steady (1 / 10) = int 2"
    by (simp add: sim_steady_def)
  have "\<exists>w2. capture_frames sim_steady ''/data/replay_output'' (PyInt (frames_for sim_steady (1 / 10))) True w1 =
          Some (None, w2)"
    if "frame_count w1 = frame_count session0" "captured_image w1 = captured_image session0" for w1
    unfolding frames
  proof (rule capture_frames_returns)
    show "spawn_actor sim_steady ''sensor.camera.rgb'' (clock w1) = Inr 1"
      by (simp add: sim_steady_def)
    show "frame_count w1 = 0" "captured_image w1 = None"
      using that by (simp_all add: session0_def)
    show "2 \<le> length (delivering sim_steady (clock w1) 2)"
      by (simp add: delivering_steady)
  qed
  then have "\<exists>w'. run_replay sim_steady fs_log ''recording.log''
        (capture_frames sim_steady ''/data/replay_output'') (1 / 10) True session0 = Some (None, w')"
    by (intro run_replay_returns
          [where capture_func = "capture_frames sim_steady ''/data/replay_output''" and w = session0,
           OF log replay])
  then obtain w' where
    r: "run_replay sim_steady fs_log ''recording.log'' (capture_frames sim_steady ''/data/replay_output'')
          (1 / 10) True session0 = Some (None, w')"
    by blast
  from run_replay_sync_final_settings [OF r log replay capture_frames_keeps_heap]
  have "server_settings w' = mutated (server_settings session0)"
    by (simp add: mutated_def)
  with m r show ?thesis
    by (simp add: mutated_def session0_def)
qed


section \<open>Properties of the replay entry points\<close>

text \<open>
  Claim C9. When the replay log does not exist, \<^verbatim>\<open>run_replay\<close> returns normally
  and \<^verbatim>\<open>replay_log\<close> returns, each having done nothing but print: the state
  afterwards is the state before with the not-found line (after the line
  \<^verbatim>\<open>Checking log file\<close>, for \<^verbatim>\<open>replay_log\<close>) added to the trace. So the server's
  settings are untouched, no settings were sent and no replay was requested.
\<close>

theorem replay_missing_log:
  assumes "\<not> path_exists fs (abspath env log_file)"
  shows "run_replay env fs log_file capture_func duration sync_mode w =
           Some (None, w\<lparr>trace := trace w @ [Print (''Log file not found: '' @ abspath env log_file)]\<rparr>) \<and>
         replay_log env fs log_file start seconds follow_id w =
           w\<lparr>trace := trace w @ [Print (''Checking log file: '' @ abspath env log_file),
                                  Print (''Log file '' @ abspath env log_file @ '' not found!'')]\<rparr>"
  using assms by (simp add: run_replay_def replay_log_def emit_def Let_def)

theorem replay_missing_log_witness:
  "\<not> path_exists fs_log (abspath sim_steady ''missing.log'') \<and>
   run_replay sim_steady fs_log ''missing.log'' (capture_frames sim_steady ''/data/replay_output'') 5 True session0 =
     Some (None, session0\<lparr>trace := [Print ''Log file not found: /data/missing.log'']\<rparr>) \<and>
   replay_log sim_steady fs_log ''missing.log'' 0 0 0 session0 =
     session0\<lparr>trace := [Print ''Checking log file: /data/missing.log'',
                          Print ''Log file /data/missing.log not found!'']\<rparr> \<and>
   server_settings (replay_log sim_steady fs_log ''missing.log'' 0 0 0 session0) = server_settings session0"
proof -
  have h: "\<not> path_exists fs_log (abspath sim_steady ''missing.log'')"
    by (simp add: fs_log_def sim_steady_def)
  have a: "abspath sim_steady ''missing.log'' = ''/data/missing.log''"
    by (simp add: sim_steady_def)
  have t: "trace session0 = []"
    by (simp add: session0_def)
  from replay_missing_log
         [OF h, of "capture_frames sim_steady ''/data/replay_output''" 5 True session0 0 0 0]
  show ?thesis
    using h by (simp add: a t)
qed


section \<open>Properties of the replay bootstrap wait\<close>

lemma polls_wait_step: "polls (trace (wait_step env sync_mode s)) = Suc (polls (trace s))"
  by (simp add: wait_step_def tick_def sleep_def emit_def polls_def is_poll_def)

lemma polls_still_waiting: "polls (trace (still_waiting env n s)) = polls (trace s)"
  by (simp add: still_waiting_def emit_def polls_def is_poll_def)

lemma wait_for_vehicles_bound:
  assumes "wait_for_vehicles env sync_mode vehicles wait_attempts s = (vehicles', wait_attempts', s')"
    and "wait_attempts \<le> max_wait_attempts"
  shows "wait_attempts \<le> wait_attempts' \<and> wait_attempts' \<le> max_wait_attempts \<and>
         polls (trace s') = polls (trace s) + nat (wait_attempts' - wait_attempts) \<and>
         (vehicles' = [] \<longrightarrow> wait_attempts' = max_wait_attempts)"
  using assms
proof (induction env sync_mode vehicles wait_attempts s rule: wait_for_vehicles.induct)
  case (1 env sync_mode vehicles wait_attempts s)
  show ?case
  proof (cases "vehicles = [] \<and> wait_attempts < max_wait_attempts")
    case True
    let ?s1 = "wait_step env sync_mode s"
    let ?s2 = "still_waiting env (wait_attempts + 1) ?s1"
    from True "1.prems"(1)
    have r: "wait_for_vehicles env sync_mode (vehicles_at env (clock ?s1)) (wait_attempts + 1) ?s2 =
               (vehicles', wait_attempts', s')"
      by (subst (asm) wait_for_vehicles.simps) (simp add: Let_def)
    from True have "wait_attempts + 1 \<le> max_wait_attempts"
      by simp
    from "1.IH" [OF True refl refl refl r this]
    show ?thesis
      by (auto simp: polls_wait_step polls_still_waiting nat_diff_distrib)
  next
    case False
    with "1.prems" show ?thesis
      by (subst (asm) wait_for_vehicles.simps) auto
  qed
qed


lemma wait_for_vehicles_never:
  assumes "\<forall>t. vehicles_at env t = []" and "vehicles = []"
  shows "fst (wait_for_vehicles env sync_mode vehicles wait_attempts s) = []"
  using assms
proof (induction env sync_mode vehicles wait_attempts s rule: wait_for_vehicles.induct)
  case (1 env sync_mode vehicles wait_attempts s)
  show ?case
  proof (cases "vehicles = [] \<and> wait_attempts < max_wait_attempts")
    case True
    from "1.IH" [OF True refl refl refl "1.prems"(1)] "1.prems"(1) True show ?thesis
      by (subst wait_for_vehicles.simps) (simp add: Let_def)
  next
    case False
    with "1.prems" show ?thesis
      by (subst wait_for_vehicles.simps) simp
  qed
qed

text \<open>
  Claim C4. The wait loop of \<^verbatim>\<open>follow_vehicle\<close> and of \<^verbatim>\<open>extract_data\<close>, started
  as these functions start it, ends after at most 50 attempts, each attempt being one
  simulation step (lock-step mode) or one sleep (free-running mode). When it ends
  with no vehicle, all 50 attempts were made and the function prints the failure
  line and returns normally at once: \<^verbatim>\<open>vehicles[0]\<close> is not evaluated. When it ends
  with a vehicle, \<^verbatim>\<open>vehicles[0]\<close> is the first vehicle and raises nothing.
\<close>

theorem bootstrap_wait_bounded:
  assumes "wait_for_vehicles env sync_mode [] 0
             (emit (Print ''Waiting for vehicles to spawn from replay...'') s0) =
           (vehicles, wait_attempts, s1)"
    and "wait_for_vehicles env sync_mode [] 0
             (emit (Print ''Waiting for vehicles to spawn from replay...'')
                (s0\<lparr>start_time := Some (wall_time env (clock s0))\<rparr>)) =
           (vehicles_d, wait_attempts_d, s1_d)"
  shows "0 \<le> wait_attempts \<and> wait_attempts \<le> 50 \<and>
         polls (trace s1) = polls (trace s0) + nat wait_attempts \<and>
         0 \<le> wait_attempts_d \<and> wait_attempts_d \<le> 50 \<and>
         polls (trace s1_d) = polls (trace s0) + nat wait_attempts_d \<and>
         (vehicles = [] \<longrightarrow>
            wait_attempts = 50 \<and>
            follow_vehicle env output_dir target sync_mode s0 =
              Some (None, emit (Print ''No vehicles found after waiting 5 seconds'') s1)) \<and>
         (vehicles \<noteq> [] \<longrightarrow> first vehicles = Inr (hd vehicles)) \<and>
         (vehicles_d = [] \<longrightarrow>
            wait_attempts_d = 50 \<and>
            extract_data env output_file target sync_mode s0 =
              Some (None, emit (Print ''No vehicles found after waiting 5 seconds'') s1_d))"
proof -
  have z: "(0::int) \<le> max_wait_attempts"
    by (simp add: max_wait_attempts_def)
  from wait_for_vehicles_bound [OF assms(1) z]
  have a: "0 \<le> wait_attempts" "wait_attempts \<le> 50"
    "polls (trace s1) = polls (trace s0) + nat wait_attempts"
    "vehicles = [] \<longrightarrow> wait_attempts = 50"
    by (simp_all add: max_wait_attempts_def emit_def polls_def is_poll_def)
  from wait_for_vehicles_bound [OF assms(2) z]
  have b: "0 \<le> wait_attempts_d" "wait_attempts_d \<le> 50"
    "polls (trace s1_d) = polls (trace s0) + nat wait_attempts_d"
    "vehicles_d = [] \<longrightarrow> wait_attempts_d = 50"
    by (simp_all add: max_wait_attempts_def emit_def polls_def is_poll_def)
  have c: "vehicles = [] \<longrightarrow>
      follow_vehicle env output_dir target sync_mode s0 =
        Some (None, emit (Print ''No vehicles found after waiting 5 seconds'') s1)"
    by (simp add: follow_vehicle_def assms(1))
  have d: "vehicles_d = [] \<longrightarrow>
      extract_data env output_file target sync_mode s0 =
        Some (None, emit (Print ''No vehicles found after waiting 5 seconds'') s1_d)"
    by (simp add: extract_data_def Let_def assms(2))
  have e: "vehicles \<noteq> [] \<longrightarrow> first vehicles = Inr (hd vehicles)"
    by (simp add: first_def)
  from a b c d e show ?thesis
    by blast
qed

theorem bootstrap_wait_bounded_witness:
  "fst (wait_for_vehicles sim_steady True [] 0
          (emit (Print ''Waiting for vehicles to spawn from replay...'') session0)) = [] \<and>
   fst (snd (wait_for_vehicles sim_steady True [] 0
          (emit (Print ''Waiting for vehicles to spawn from replay...'') session0))) = 50 \<and>
   polls (trace (snd (snd (wait_for_vehicles sim_steady True [] 0
          (emit (Print ''Waiting for vehicles to spawn from replay...'') session0))))) = 50 \<and>
   follow_vehicle sim_steady ''/data/out'' (PyInt 40) True session0 =
     Some (None, emit (Print ''No vehicles found after waiting 5 seconds'')
        (snd (snd (wait_for_vehicles sim_steady True [] 0
          (emit (Print ''Waiting for vehicles to spawn from replay...'') session0))))) \<and>
   fst (wait_for_vehicles sim_traffic False [] 0
          (emit (Print ''Waiting for vehicles to spawn from replay...'') session0)) = [car, ghost, car] \<and>
   first [car, ghost, car] = Inr car"
proof -
  let ?w = "emit (Print ''Waiting for vehicles to spawn from replay...'') session0"
  let ?wd = "emit (Print ''Waiting for vehicles to spawn from replay...'')
      (session0\<lparr>start_time := Some (wall_time sim_steady (clock session0))\<rparr>)"
  let ?r = "wait_for_vehicles sim_steady True [] 0 ?w"
  let ?rd = "wait_for_vehicles sim_steady True [] 0 ?wd"
  have none: "fst ?r = []"
    by (rule wait_for_vehicles_never) (simp_all add: sim_steady_def)
  have h1: "?r = (fst ?r, fst (snd ?r), snd (snd ?r))"
    and h2: "?rd = (fst ?rd, fst (snd ?rd), snd (snd ?rd))"
    by simp_all
  have p0: "polls (trace session0) = 0"
    by (simp add: session0_def polls_def)
  let ?t = "wait_for_vehicles sim_traffic False [] 0 ?w"
  let ?td = "wait_for_vehicles sim_traffic False [] 0
      (emit (Print ''Waiting for vehicles to spawn from replay...'')
         (session0\<lparr>start_time := Some (wall_time sim_traffic (clock session0))\<rparr>))"
  have some: "fst ?t = [car, ghost, car]"
    by (subst wait_for_vehicles.simps, simp add: max_wait_attempts_def Let_def,
        subst wait_for_vehicles.simps,
        simp add: sim_traffic_def wait_step_def sleep_def emit_def session0_def)
  have h3: "?t = (fst ?t, fst (snd ?t), snd (snd ?t))"
    and h4: "?td = (fst ?td, fst (snd ?td), snd (snd ?td))"
    by simp_all
  from bootstrap_wait_bounded [OF h1 h2, of "''/data/out''" "PyInt 40"] none p0
  have "fst (snd ?r) = 50" "polls (trace (snd (snd ?r))) = 50"
    "follow_vehicle sim_steady ''/data/out'' (PyInt 40) True session0 =
       Some (None, emit (Print ''No vehicles found after waiting 5 seconds'') (snd (snd ?r)))"
    by simp_all
  moreover from bootstrap_wait_bounded [OF h3 h4] some
  have "first [car, ghost, car] = Inr car"
    by simp
  ultimately show ?thesis
    using none some by simp
qed


section \<open>Properties of telemetry extraction\<close>

lemma vehicle_line_None: "vehicle_line env v = None \<longleftrightarrow> \<not> reports v"
  by (auto simp: vehicle_line_def reports_def split: sum.splits prod.splits)

lemma length_vehicle_lines: "length (vehicle_lines env vs) = length (filter reports vs)"
proof -
  have "(\<lambda>v. vehicle_line env v \<noteq> None) = reports"
    by (simp add: vehicle_line_None fun_eq_iff)
  then show ?thesis
    by (simp add: vehicle_lines_def List.map_filter_def)
qed

lemma one_vehicle_lost:
  assumes "length (filter (\<lambda>v. \<not> reports v) vs) = 1"
  shows "length (vehicle_lines env vs) = length vs - 1"
  using assms sum_length_filter_compl [of reports vs]
  by (simp add: length_vehicle_lines)

lemma content_emit: "file_content f (trace (emit e s)) = content_step f (file_content f (trace s)) e"
  by (simp add: file_content_def emit_def)

lemma content_write_vehicle:
  "file_content f (trace (write_vehicle env f v s)) =
     file_content f (trace s) @ (case vehicle_line env v of None \<Rightarrow> [] | Some l \<Rightarrow> [l])"
  by (simp add: write_vehicle_def content_emit content_step_def split: option.splits)

lemma content_fold_write_vehicle:
  "file_content f (trace (fold (write_vehicle env f) vs s)) =
     file_content f (trace s) @ vehicle_lines env vs"
proof (induction vs arbitrary: s)
  case Nil
  show ?case
    by (simp add: vehicle_lines_def List.map_filter_simps)
next
  case (Cons v vs)
  show ?case
    using Cons.IH [of "write_vehicle env f v s"]
    by (simp add: content_write_vehicle vehicle_lines_def List.map_filter_simps split: option.splits)
qed

lemma content_write_block:
  "file_content f (trace (write_block env f vs s)) =
     file_content f (trace s) @ frame_header (frame_count s) # vehicle_lines env vs"
  by (simp add: write_block_def content_fold_write_vehicle content_emit content_step_def)

lemma clock_fold_write_vehicle [simp]: "clock (fold (write_vehicle env f) vs s) = clock s"
  by (induction vs arbitrary: s) (simp_all add: write_vehicle_def emit_def split: option.splits)

lemma clock_write_block [simp]: "clock (write_block env f vs s) = clock s"
  by (simp add: write_block_def emit_def)

lemma start_time_fold_write_vehicle [simp]: "start_time (fold (write_vehicle env f) vs s) = start_time s"
  by (induction vs arbitrary: s) (simp_all add: write_vehicle_def emit_def split: option.splits)

lemma start_time_write_block [simp]: "start_time (write_block env f vs s) = start_time s"
  by (simp add: write_block_def emit_def)

lemma extract_iteration_effect:
  "clock (extract_iteration env f target s) = Suc (clock s) \<and>
   file_content f (trace (extract_iteration env f target s)) =
     file_content f (trace s) @ frame_header (frame_count s) #
       vehicle_lines env (vehicles_at env (Suc (clock s)))"
  by (simp add: extract_iteration_def Let_def content_write_block content_emit content_step_def
      tick_def) (simp add: emit_def)

lemma extract_iteration_async_effect:
  "clock (extract_iteration_async env f s) = Suc (clock s) \<and>
   frame_count (extract_iteration_async env f s) = frame_count s + 1 \<and>
   start_time (extract_iteration_async env f s) = start_time s \<and>
   file_content f (trace (extract_iteration_async env f s)) =
     file_content f (trace s) @ frame_header (frame_count s) # vehicle_lines env (vehicles_at env (clock s))"
  by (simp add: extract_iteration_async_def Let_def content_write_block content_emit content_step_def
      sleep_def) (simp add: emit_def)


lemma extract_loop_general:
  assumes "frame_count s = int k" and "k \<le> N"
  shows "frame_count (extract_loop env f (PyInt (int N)) s) = int N \<and>
         file_content f (trace (extract_loop env f (PyInt (int N)) s)) =
           file_content f (trace s) @
           concat (map (\<lambda>j. frame_header (int (k + j)) # vehicle_lines env (vehicles_at env (clock s + Suc j)))
                       [0..<N - k])"
  using assms
proof (induction "N - k" arbitrary: s k)
  case 0
  then have "k = N" by simp
  with 0 show ?case
    by (subst (1 2) extract_loop.simps) (simp add: int_less_def)
next
  case (Suc d)
  then have less: "k < N" by simp
  let ?s1 = "extract_iteration env f (PyInt (int N)) s"
  from less Suc.prems have unfold: "extract_loop env f (PyInt (int N)) s = extract_loop env f (PyInt (int N)) ?s1"
    by (subst extract_loop.simps) (simp add: int_less_def)
  from Suc.prems have fc: "frame_count ?s1 = int (Suc k)"
    by simp
  from Suc.hyps(2) have d: "d = N - Suc k"
    by simp
  from less have le: "Suc k \<le> N"
    by simp
  note IH = Suc.hyps(1) [OF d fc le]
  from less have range: "[0..<N - k] = 0 # map Suc [0..<N - Suc k]"
    by (simp add: map_Suc_upt Suc_diff_Suc upt_conv_Cons del: upt_Suc)
  show ?case
    unfolding unfold range
    using IH Suc.prems(1)
    by (simp add: extract_iteration_effect comp_def ac_simps)
qed

lemma extract_until_general:
  assumes "\<forall>i<n. wall_time env (clock s + i) - start < limit"
    and "\<not> wall_time env (clock s + n) - start < limit"
    and "start_time s = Some start" and "frame_count s = int k"
  shows "\<exists>s'. extract_until env f limit s = Some s' \<and> frame_count s' = int (k + n) \<and>
           file_content f (trace s') =
             file_content f (trace s) @
             concat (map (\<lambda>j. frame_header (int (k + j)) # vehicle_lines env (vehicles_at env (clock s + j)))
                         [0..<n])"
  using assms
proof (induction n arbitrary: s k)
  case 0
  then have "\<not> since_start env s < limit"
    by (simp add: since_start_def)
  then have "extract_until env f limit s = Some s"
    by (subst extract_until.simps) simp
  with 0 show ?case by simp
next
  case (Suc n)
  let ?s1 = "extract_iteration_async env f s"
  note eff = extract_iteration_async_effect [of env f s]
  from Suc.prems(1) have "wall_time env (clock s + 0) - start < limit"
    by blast
  with Suc.prems(3) have "since_start env s < limit"
    by (simp add: since_start_def)
  then have unfold: "extract_until env f limit s = extract_until env f limit ?s1"
    by (subst extract_until.simps) simp
  from Suc.prems(1) have a: "\<forall>i<n. wall_time env (clock ?s1 + i) - start < limit"
    using eff by (auto dest: spec [of _ "Suc i" for i])
  from Suc.prems(2) have b: "\<not> wall_time env (clock ?s1 + n) - start < limit"
    using eff by simp
  from Suc.prems(3) have c: "start_time ?s1 = Some start"
    using eff by simp
  from Suc.prems(4) have d: "frame_count ?s1 = int (Suc k)"
    using eff by simp
  from Suc.IH [OF a b c d] obtain s' where
    r: "extract_until env f limit ?s1 = Some s'" "frame_count s' = int (Suc k + n)"
       "file_content f (trace s') =
          file_content f (trace ?s1) @
          concat (map (\<lambda>j. frame_header (int (Suc k + j)) # vehicle_lines env (vehicles_at env (clock ?s1 + j)))
                      [0..<n])"
    by blast
  have range: "[0..<Suc n] = 0 # map Suc [0..<n]"
    by (simp add: map_Suc_upt upt_conv_Cons del: upt_Suc)
  show ?case
    unfolding unfold range
    using r eff Suc.prems(4)
    by (intro exI [of _ s']) (simp add: comp_def ac_simps)
qed

lemma wait_for_vehicles_keeps:
  assumes "wait_for_vehicles env sync_mode vehicles wait_attempts s = (vehicles', wait_attempts', s')"
  shows "frame_count s' = frame_count s \<and> start_time s' = start_time s \<and>
         file_content f (trace s') = file_content f (trace s)"
  using assms
proof (induction env sync_mode vehicles wait_attempts s rule: wait_for_vehicles.induct)
  case (1 env sync_mode vehicles wait_attempts s)
  show ?case
  proof (cases "vehicles = [] \<and> wait_attempts < max_wait_attempts")
    case True
    let ?s1 = "wait_step env sync_mode s"
    let ?s2 = "still_waiting env (wait_attempts + 1) ?s1"
    from True "1.prems"
    have r: "wait_for_vehicles env sync_mode (vehicles_at env (clock ?s1)) (wait_attempts + 1) ?s2 =
               (vehicles', wait_attempts', s')"
      by (subst (asm) wait_for_vehicles.simps) (simp add: Let_def)
    have "frame_count ?s2 = frame_count s \<and> start_time ?s2 = start_time s \<and>
          file_content f (trace ?s2) = file_content f (trace s)"
      by (simp add: still_waiting_def wait_step_def tick_def sleep_def content_emit content_step_def)
        (simp add: emit_def)
    with "1.IH" [OF True refl refl refl r] show ?thesis
      by simp
  next
    case False
    with "1.prems" show ?thesis
      by (subst (asm) wait_for_vehicles.simps) auto
  qed
qed


text \<open>
  Claim C5. Let \<^verbatim>\<open>extract_data\<close> start with the counter at zero and let its wait end
  with a vehicle. In lock-step mode with target \<open>n\<close> it returns normally with the
  counter at \<open>n\<close>, and the file then holds exactly \<open>n\<close> blocks: for each step
  \<open>i\<close> from 0 the header \<^verbatim>\<open>--- Frame i ---\<close> followed by the lines of the
  vehicles present at that step. In free-running mode the same holds for the \<open>n\<close>
  passes that the wall clock allows before the duration is over. The lines of a step
  are, in order, those of the vehicles both of whose reads succeed; a vehicle with a
  failing read yields no line and does not stop the pass, so when exactly one of the
  vehicles of a step fails, the step has one line less than it has vehicles.
\<close>

theorem telemetry_skips_failed_reads:
  assumes "wait_for_vehicles env sync_mode [] 0
             (emit (Print ''Waiting for vehicles to spawn from replay...'')
                (s0\<lparr>start_time := Some (wall_time env (clock s0))\<rparr>)) =
           (vehicles, wait_attempts, s2)"
    and "vehicles \<noteq> []" and "frame_count s0 = 0"
  shows "(sync_mode \<longrightarrow>
            (\<exists>s'. extract_data env f (PyInt (int n)) sync_mode s0 = Some (None, s') \<and>
               frame_count s' = int n \<and>
               file_content f (trace s') =
                 concat (map (\<lambda>i. frame_header (int i) # vehicle_lines env (vehicles_at env (clock s2 + Suc i)))
                             [0..<n]))) \<and>
         (\<not> sync_mode \<and> (\<forall>i<n. wall_time env (clock s2 + i) - wall_time env (clock s0) < limit) \<and>
          \<not> wall_time env (clock s2 + n) - wall_time env (clock s0) < limit \<longrightarrow>
            (\<exists>s'. extract_data env f (PyFloat limit) sync_mode s0 = Some (None, s') \<and>
               frame_count s' = int n \<and>
               file_content f (trace s') =
                 concat (map (\<lambda>i. frame_header (int i) # vehicle_lines env (vehicles_at env (clock s2 + i)))
                             [0..<n]))) \<and>
         vehicle_lines env vs = List.map_filter (vehicle_line env) vs \<and>
         (\<forall>v. vehicle_line env v = None \<longleftrightarrow> \<not> reports v) \<and>
         (\<forall>v x y vx vy. get_transform v = Inr (x, y) \<and> get_velocity v = Inr (vx, vy) \<longrightarrow>
            vehicle_line env v =
              Some (''Vehicle '' @ str_int (vid v) @ '': pos=('' @ fmt_1f env x @ '','' @ fmt_1f env y @
                    '') vel=('' @ fmt_1f env vx @ '','' @ fmt_1f env vy @ '')'' @ [CHR 0x0A])) \<and>
         length (vehicle_lines env vs) = length (filter reports vs) \<and>
         (length (filter (\<lambda>v. \<not> reports v) vs) = 1 \<longrightarrow> length (vehicle_lines env vs) = length vs - 1)"
proof -
  let ?found = "Print (''Found '' @ str_int (int (length vehicles)) @ '' vehicle(s) to track'')"
  let ?s4 = "emit (FileOpen f) (emit ?found s2)"
  from wait_for_vehicles_keeps [OF assms(1), of f] assms(3)
  have keeps: "frame_count s2 = 0" "start_time s2 = Some (wall_time env (clock s0))"
    by (simp_all add: emit_def)
  have opened: "file_content f (trace (emit (Print msg) ?s4)) = []"
    "frame_count (emit (Print msg) ?s4) = int 0"
    "clock (emit (Print msg) ?s4) = clock s2"
    "start_time (emit (Print msg) ?s4) = Some (wall_time env (clock s0))"
    for msg
    using keeps
    by (simp_all add: content_emit content_step_def) (simp_all add: emit_def)
  have sync: "\<exists>s'. extract_data env f (PyInt (int n)) sync_mode s0 = Some (None, s') \<and>
      frame_count s' = int n \<and>
      file_content f (trace s') =
        concat (map (\<lambda>i. frame_header (int i) # vehicle_lines env (vehicles_at env (clock s2 + Suc i))) [0..<n])"
    if sync_mode
  proof -
    let ?m = "''Extracting vehicle data for '' @ str_number env (PyInt (int n)) @ '' frames...''"
    let ?e = "Print ?m"
    from extract_loop_general [OF opened(2) [of ?m], of n env f] opened(1,3) [of ?m]
    have "frame_count (extract_loop env f (PyInt (int n)) (emit ?e ?s4)) = int n \<and>
        file_content f (trace (extract_loop env f (PyInt (int n)) (emit ?e ?s4))) =
          concat (map (\<lambda>i. frame_header (int i) # vehicle_lines env (vehicles_at env (clock s2 + Suc i))) [0..<n])"
      by simp
    with that assms(1,2) show ?thesis
      by (simp add: extract_data_def Let_def)
  qed
  have async: "\<exists>s'. extract_data env f (PyFloat limit) sync_mode s0 = Some (None, s') \<and>
      frame_count s' = int n \<and>
      file_content f (trace s') =
        concat (map (\<lambda>i. frame_header (int i) # vehicle_lines env (vehicles_at env (clock s2 + i))) [0..<n])"
    if "\<not> sync_mode" and t1: "\<forall>i<n. wall_time env (clock s2 + i) - wall_time env (clock s0) < limit"
      and t2: "\<not> wall_time env (clock s2 + n) - wall_time env (clock s0) < limit"
  proof -
    let ?m = "''Extracting vehicle data for '' @ str_number env (PyFloat limit) @ '' seconds...''"
    let ?e = "Print ?m"
    from t1 t2 opened(3) [of ?m]
    have "\<forall>i<n. wall_time env (clock (emit ?e ?s4) + i) - wall_time env (clock s0) < limit"
      "\<not> wall_time env (clock (emit ?e ?s4) + n) - wall_time env (clock s0) < limit"
      by simp_all
    from extract_until_general [OF this opened(4) [of ?m] opened(2) [of ?m], of f]
      opened(1,3) [of ?m]
    obtain s' where "extract_until env f limit (emit ?e ?s4) = Some s'" "frame_count s' = int n"
      "file_content f (trace s') =
         concat (map (\<lambda>i. frame_header (int i) # vehicle_lines env (vehicles_at env (clock s2 + i))) [0..<n])"
      by auto
    with that(1) assms(1,2) show ?thesis
      by (simp add: extract_data_def Let_def real_of_number_def)
  qed
  have lost: "length (filter (\<lambda>v. \<not> reports v) vs) = 1 \<longrightarrow> length (vehicle_lines env vs) = length vs - 1"
    using one_vehicle_lost by blast
  have line: "\<forall>v x y vx vy. get_transform v = Inr (x, y) \<and> get_velocity v = Inr (vx, vy) \<longrightarrow>
      vehicle_line env v =
        Some (''Vehicle '' @ str_int (vid v) @ '': pos=('' @ fmt_1f env x @ '','' @ fmt_1f env y @
              '') vel=('' @ fmt_1f env vx @ '','' @ fmt_1f env vy @ '')'' @ [CHR 0x0A])"
    by (simp add: vehicle_line_def newline_def)
  have skipped: "\<forall>v. vehicle_line env v = None \<longleftrightarrow> \<not> reports v"
    by (simp add: vehicle_line_None)
  have lines: "vehicle_lines env vs = List.map_filter (vehicle_line env) vs"
    by (simp add: vehicle_lines_def)
  from sync async lost length_vehicle_lines [of env vs] line skipped lines show ?thesis
    by blast
qed


theorem telemetry_skips_failed_reads_witness:
  "length (filter (\<lambda>v. \<not> reports v) [car, ghost, truck]) = 1 \<and>
   length (vehicle_lines sim_convoy [car, ghost, truck]) = 2 \<and>
   (\<exists>s'. extract_data sim_convoy ''/data/out/vehicle_data.txt'' (PyInt 2) True session0 = Some (None, s') \<and>
      file_content ''/data/out/vehicle_data.txt'' (trace s') =
        [newline @ ''--- Frame 0 ---'' @ newline,
         ''Vehicle 24: pos=(0.0,0.0) vel=(0.0,0.0)'' @ newline,
         ''Vehicle 26: pos=(0.0,0.0) vel=(0.0,0.0)'' @ newline,
         newline @ ''--- Frame 1 ---'' @ newline,
         ''Vehicle 24: pos=(0.0,0.0) vel=(0.0,0.0)'' @ newline,
         ''Vehicle 25: pos=(0.0,0.0) vel=(0.0,0.0)'' @ newline,
         ''Vehicle 26: pos=(0.0,0.0) vel=(0.0,0.0)'' @ newline]) \<and>
   (\<exists>s'. extract_data sim_convoy ''/data/out/vehicle_data.txt'' (PyFloat 3) False session0 = Some (None, s') \<and>
      file_content ''/data/out/vehicle_data.txt'' (trace s') =
        [newline @ ''--- Frame 0 ---'' @ newline,
         ''Vehicle 24: pos=(0.0,0.0) vel=(0.0,0.0)'' @ newline,
         ''Vehicle 25: pos=(0.0,0.0) vel=(0.0,0.0)'' @ newline,
         ''Vehicle 26: pos=(0.0,0.0) vel=(0.0,0.0)'' @ newline,
         newline @ ''--- Frame 1 ---'' @ newline,
         ''Vehicle 24: pos=(0.0,0.0) vel=(0.0,0.0)'' @ newline,
         ''Vehicle 26: pos=(0.0,0.0) vel=(0.0,0.0)'' @ newline])"
proof -
  let ?f = "''/data/out/vehicle_data.txt''"
  let ?w = "emit (Print ''Waiting for vehicles to spawn from replay...'')
      (session0\<lparr>start_time := Some (wall_time sim_convoy (clock session0))\<rparr>)"
  have lost: "length (filter (\<lambda>v. \<not> reports v) [car, ghost, truck]) = 1"
    by (simp add: reports_def car_def ghost_def truck_def)
  have ids: "str_int 24 = ''24''" "str_int 25 = ''25''" "str_int 26 = ''26''"
    by code_simp+
  have full: "vehicle_lines sim_convoy [car, van, truck] =
      [''Vehicle 24: pos=(0.0,0.0) vel=(0.0,0.0)'' @ newline,
       ''Vehicle 25: pos=(0.0,0.0) vel=(0.0,0.0)'' @ newline,
       ''Vehicle 26: pos=(0.0,0.0) vel=(0.0,0.0)'' @ newline]"
    by (simp add: vehicle_lines_def List.map_filter_simps vehicle_line_def car_def van_def truck_def
        sim_convoy_def sim_steady_def ids)
  have part: "vehicle_lines sim_convoy [car, ghost, truck] =
      [''Vehicle 24: pos=(0.0,0.0) vel=(0.0,0.0)'' @ newline,
       ''Vehicle 26: pos=(0.0,0.0) vel=(0.0,0.0)'' @ newline]"
    by (simp add: vehicle_lines_def List.map_filter_simps vehicle_line_def car_def ghost_def truck_def
        sim_convoy_def sim_steady_def ids)
  have at: "vehicles_at sim_convoy (Suc 0) = [car, van, truck]"
    "vehicles_at sim_convoy (Suc (Suc 0)) = [car, ghost, truck]"
    "vehicles_at sim_convoy (Suc (Suc (Suc 0))) = [car, van, truck]"
    by (simp_all add: sim_convoy_def)
  have headers: "frame_header 0 = newline @ ''--- Frame 0 ---'' @ newline"
    "frame_header 1 = newline @ ''--- Frame 1 ---'' @ newline"
    by code_simp+
  have two: "[0..<2] = [0, Suc 0]"
    by (simp add: upt_rec)
  have zero: "frame_count session0 = 0"
    by (simp add: session0_def)
  have c: "clock (wait_step sim_convoy sync_mode ?w) = Suc 0" for sync_mode
    by (simp add: wait_step_def tick_def sleep_def emit_def session0_def)
  have wait: "wait_for_vehicles sim_convoy sync_mode [] 0 ?w =
      ([car, van, truck], 1, wait_step sim_convoy sync_mode ?w)" for sync_mode
    by (subst wait_for_vehicles.simps, simp add: max_wait_attempts_def Let_def still_waiting_def c at,
        subst wait_for_vehicles.simps, simp)
  have found: "[car, van, truck] \<noteq> []"
    by simp
  have wt: "wall_time sim_convoy = real"
    by (simp add: sim_convoy_def sim_steady_def)
  have timing: "\<forall>i<2. wall_time sim_convoy (clock (wait_step sim_convoy False ?w) + i) -
        wall_time sim_convoy (clock session0) < 3"
    "\<not> wall_time sim_convoy (clock (wait_step sim_convoy False ?w) + 2) -
        wall_time sim_convoy (clock session0) < 3"
    unfolding c by (auto simp: wt session0_def)
  note lock_step_run = telemetry_skips_failed_reads
    [OF wait [of True] found zero, where f = ?f and n = 2 and vs = "[car, ghost, truck]"]
  note wall_clock_run = telemetry_skips_failed_reads
    [OF wait [of False] found zero, where f = ?f and n = 2 and limit = 3 and vs = "[car, ghost, truck]"]
  from lock_step_run lost
  have "length (vehicle_lines sim_convoy [car, ghost, truck]) = length [car, ghost, truck] - 1"
    by blast
  then have "length (vehicle_lines sim_convoy [car, ghost, truck]) = 2"
    by simp
  moreover from lock_step_run
  have "\<exists>s'. extract_data sim_convoy ?f (PyInt (int 2)) True session0 = Some (None, s') \<and>
      file_content ?f (trace s') =
        concat (map (\<lambda>i. frame_header (int i) #
                      vehicle_lines sim_convoy (vehicles_at sim_convoy (clock (wait_step sim_convoy True ?w) + Suc i)))
                    [0..<2])"
    by blast
  moreover from wall_clock_run timing
  have "\<exists>s'. extract_data sim_convoy ?f (PyFloat 3) False session0 = Some (None, s') \<and>
      file_content ?f (trace s') =
        concat (map (\<lambda>i. frame_header (int i) #
                      vehicle_lines sim_convoy (vehicles_at sim_convoy (clock (wait_step sim_convoy False ?w) + i)))
                    [0..<2])"
    by blast
  ultimately show ?thesis
    using lost by (simp add: c two at full part headers)
qed

end
